theory Spec2Isabelle
  imports Main "HOL-Library.Word" "HOL-Library.Stream" "HOL-Library.Monad_Syntax"
begin

section \<open>The Particle platform as the sketches use it\<close>

text \<open>
  The repository holds two sketches: \<^verbatim>\<open>src/Sleep-Modes.ino\<close> (five tests, a pass
  count, a constant test duration of 20 seconds) and the v1.03 sketch quoted in
  \<^verbatim>\<open>README.md\<close> (two tests, a duration that is set at run time by \<^verbatim>\<open>setDuration\<close>).
  Both run on Particle Device OS, on a 32-bit ARM core: \<^verbatim>\<open>int\<close>, \<^verbatim>\<open>long\<close>,
  \<^verbatim>\<open>unsigned long\<close> and \<^verbatim>\<open>system_tick_t\<close> are 32 bits wide and \<^verbatim>\<open>uint8_t\<close> is a byte.
  The sketches reserve four bytes of EEPROM for the start time, so \<^verbatim>\<open>time_t\<close> is taken
  as 32 bits as well.

  What the hardware gives back (the millisecond counter, the RTC, the pins, the RTC
  interrupt flag) is a mocked source: a stream of successive readings, one consumed
  by each call. What the sketch does to the outside (publishing, sleeping, writing
  pins and EEPROM) is appended to a trace, in program order.
\<close>

datatype pin = D4 | D5 | D6 | D7 | D8

datatype pin_mode = INPUT | OUTPUT

abbreviation (input) HIGH :: bool where "HIGH \<equiv> True"
abbreviation (input) LOW :: bool where "LOW \<equiv> False"

datatype event =
    PinMode pin pin_mode
  | DigitalWrite pin bool
  | AttachInterrupt pin
  | Publish string string
  | Delay nat
  | RtcSetup
  | RtcLoop
  | RtcSetAlarm "32 word" bool
  | RtcClearAlarm
  | SleepStop "pin option" "32 word" bool
  | SleepDeep
  | EepromWrite nat "8 word"
  | EepromPut nat "32 word"
  | RegisterVariable string
  | RegisterFunction string

text \<open>A call either returns a value or leaves the device suspended or without power.\<close>

datatype 'a outcome = Returns 'a | Suspended

record device =
  testNumber :: "8 word"
  numberOfTestsPassed :: "32 word"
  watchDogFlag :: bool
  lastPublish :: "32 word"
  testDurationSeconds_v103 :: "32 word"
  eeprom :: "nat \<Rightarrow> 8 word"
  trace :: "event list"
  millis_in :: "32 word stream"
  rtc_in :: "32 word stream"
  pins_in :: "(pin \<Rightarrow> bool) stream"
  rtcint_in :: "bool stream"

definition emit :: "event \<Rightarrow> device \<Rightarrow> device" where
  "emit e s = s\<lparr>trace := trace s @ [e]\<rparr>"

definition millis :: "device \<Rightarrow> 32 word \<times> device" where
  "millis s = (shd (millis_in s), s\<lparr>millis_in := stl (millis_in s)\<rparr>)"

definition rtc_getRTCTime :: "device \<Rightarrow> 32 word \<times> device" where
  "rtc_getRTCTime s = (shd (rtc_in s), s\<lparr>rtc_in := stl (rtc_in s)\<rparr>)"

definition rtc_getInterrupt :: "device \<Rightarrow> bool \<times> device" where
  "rtc_getInterrupt s = (shd (rtcint_in s), s\<lparr>rtcint_in := stl (rtcint_in s)\<rparr>)"

definition digitalRead :: "pin \<Rightarrow> device \<Rightarrow> bool \<times> device" where
  "digitalRead p s = (shd (pins_in s) p, s\<lparr>pins_in := stl (pins_in s)\<rparr>)"

definition Particle_publish :: "string \<Rightarrow> string \<Rightarrow> device \<Rightarrow> device" where
  "Particle_publish name data s = emit (Publish name data) s"

subsection \<open>EEPROM: a byte-addressed region, objects stored little-endian\<close>

definition put_bytes :: "nat \<Rightarrow> 32 word \<Rightarrow> (nat \<Rightarrow> 8 word) \<Rightarrow> (nat \<Rightarrow> 8 word)" where
  "put_bytes a v e =
     e(a := ucast v,
       a + 1 := ucast (drop_bit 8 v),
       a + 2 := ucast (drop_bit 16 v),
       a + 3 := ucast (drop_bit 24 v))"

definition get_bytes :: "nat \<Rightarrow> (nat \<Rightarrow> 8 word) \<Rightarrow> 32 word" where
  "get_bytes a e =
     or (ucast (e a))
       (or (push_bit 8 (ucast (e (a + 1))))
         (or (push_bit 16 (ucast (e (a + 2))))
             (push_bit 24 (ucast (e (a + 3))))))"

definition EEPROM_read :: "nat \<Rightarrow> device \<Rightarrow> 8 word" where
  "EEPROM_read a s = eeprom s a"

definition EEPROM_write :: "nat \<Rightarrow> 8 word \<Rightarrow> device \<Rightarrow> device" where
  "EEPROM_write a b s = emit (EepromWrite a b) (s\<lparr>eeprom := (eeprom s)(a := b)\<rparr>)"

definition EEPROM_get :: "nat \<Rightarrow> device \<Rightarrow> 32 word" where
  "EEPROM_get a s = get_bytes a (eeprom s)"

definition EEPROM_put :: "nat \<Rightarrow> 32 word \<Rightarrow> device \<Rightarrow> device" where
  "EEPROM_put a v s = emit (EepromPut a v) (s\<lparr>eeprom := put_bytes a v (eeprom s)\<rparr>)"

subsection \<open>Formatting\<close>

text \<open>\<^verbatim>\<open>%i\<close> and \<^verbatim>\<open>%lu\<close> of \<^verbatim>\<open>snprintf\<close>, and its cut at the size of the buffer.\<close>

fun dec :: "nat \<Rightarrow> string" where
  "dec n =
     (if n < 10 then [''0123456789'' ! n]
      else dec (n div 10) @ [''0123456789'' ! (n mod 10)])"

declare dec.simps [simp del]

definition fmt_i :: "32 word \<Rightarrow> string" where
  "fmt_i w = (if sint w < 0 then CHR ''-'' # dec (nat (- sint w)) else dec (nat (sint w)))"

definition fmt_lu :: "32 word \<Rightarrow> string" where
  "fmt_lu w = dec (unat w)"

definition snprintf :: "nat \<Rightarrow> string \<Rightarrow> string" where
  "snprintf n text = take (n - 1) text"

section \<open>The publish rate limiter and the waits of Device OS\<close>

text \<open>
  \<^verbatim>\<open>meterParticlePublish\<close> (the same in both sketches) reads \<^verbatim>\<open>millis()\<close> once for the
  test and a second time for the stamp.
\<close>

definition meterParticlePublish :: "device \<Rightarrow> bool \<times> device" where
  "meterParticlePublish s =
     (let (m, s) = millis s in
      if 1000 \<le> m - lastPublish s
      then (let (m', s) = millis s in (True, s\<lparr>lastPublish := m'\<rparr>))
      else (False, s))"

text \<open>
  \<^verbatim>\<open>waitUntil(f)\<close> and \<^verbatim>\<open>waitFor(f, timeout)\<close> are macros of Device OS for
  \<^verbatim>\<open>System.waitCondition\<close>, which is
  \<^verbatim>\<open>while (_while() && !_condition()) spark_process(); return _condition();\<close>
  with \<^verbatim>\<open>_while\<close> always true for \<^verbatim>\<open>waitUntil\<close> and
  \<^verbatim>\<open>millis() - start < timeout\<close> for \<^verbatim>\<open>waitFor\<close>, \<^verbatim>\<open>start\<close> being \<^verbatim>\<open>millis()\<close> at
  the call. The loop need not end, so it is a partial function. The sketches do not
  use the value returned.
\<close>

partial_function (option) waitConditionWhile ::
    "(device \<Rightarrow> bool \<times> device) \<Rightarrow> (device \<Rightarrow> bool \<times> device) \<Rightarrow> device \<Rightarrow> device option" where
  "waitConditionWhile condition while s =
     (let (w, s) = while s in
      if w then
        (let (c, s) = condition s in
         if c then Some s else waitConditionWhile condition while s)
      else Some s)"

definition waitCondition ::
    "(device \<Rightarrow> bool \<times> device) \<Rightarrow> (device \<Rightarrow> bool \<times> device) \<Rightarrow> device \<Rightarrow>
     (bool \<times> device) option" where
  "waitCondition condition while s =
     do { s \<leftarrow> waitConditionWhile condition while s; Some (condition s) }"

definition waitUntil :: "(device \<Rightarrow> bool \<times> device) \<Rightarrow> device \<Rightarrow> (bool \<times> device) option" where
  "waitUntil condition s = waitCondition condition (\<lambda>s. (True, s)) s"

definition waitFor ::
    "(device \<Rightarrow> bool \<times> device) \<Rightarrow> 32 word \<Rightarrow> device \<Rightarrow> (bool \<times> device) option" where
  "waitFor condition timeout s =
     (let (start, s) = millis s in
      waitCondition condition (\<lambda>s. let (m, s) = millis s in (m - start < timeout, s)) s)"

section \<open>Sleep-Modes.ino\<close>

abbreviation (input) testNumberAddr :: nat where "testNumberAddr \<equiv> 0"
abbreviation (input) testStartTimeAddr :: nat where "testStartTimeAddr \<equiv> 1"
abbreviation (input) numberOfTestsPassedAddr :: nat where "numberOfTestsPassedAddr \<equiv> 5"

abbreviation (input) blueLED :: pin where "blueLED \<equiv> D7"
abbreviation (input) userSwitch :: pin where "userSwitch \<equiv> D4"
abbreviation (input) donePin :: pin where "donePin \<equiv> D5"
abbreviation (input) wakeUpPin :: pin where "wakeUpPin \<equiv> D8"
abbreviation (input) DeepSleepPin :: pin where "DeepSleepPin \<equiv> D6"

definition testDurationSeconds :: "32 word" where
  "testDurationSeconds = 20"

definition numberOfTests :: "32 word" where
  "numberOfTests = 5"

text \<open>
  The test of line 252:
  \<^verbatim>\<open>testDurationSeconds >= elapsedTime - adjustment && testDurationSeconds <= elapsedTime\<close>,
  on \<^verbatim>\<open>int\<close>. The subtraction is done in 32 bits.
\<close>

definition elapsedInWindow :: "32 word \<Rightarrow> 32 word \<Rightarrow> bool" where
  "elapsedInWindow adjustment elapsedTime \<longleftrightarrow>
     sint (elapsedTime - adjustment) \<le> sint testDurationSeconds \<and>
     sint testDurationSeconds \<le> sint elapsedTime"

definition elapsedTimeCorrect :: "bool \<Rightarrow> device \<Rightarrow> (bool \<times> device) option" where
  "elapsedTimeCorrect start s =
     (let (adjustment, s) =
            (if testNumber s = 4
             then (let (m, s) = millis s in (2 + m div 1000, s))
             else (2, s))
      in
      if start then
        (let (startTime, s) = rtc_getRTCTime s;
             s = EEPROM_put testStartTimeAddr startTime s
         in Some (False, s))
      else
        (let startTime = EEPROM_get testStartTimeAddr s;
             s = EEPROM_put testStartTimeAddr 0 s;
             (now, s) = rtc_getRTCTime s;
             elapsedTime = now - startTime
         in
         if elapsedInWindow adjustment elapsedTime then
           do {
             (_, s) \<leftarrow> waitUntil meterParticlePublish s;
             Some (True,
               Particle_publish ''Result''
                 (snprintf 32 (''Passed elapsed time '' @ fmt_i elapsedTime)) s)
           }
         else
           do {
             (_, s) \<leftarrow> waitUntil meterParticlePublish s;
             Some (False,
               Particle_publish ''Result''
                 (snprintf 32 (''Failed elapsed time '' @ fmt_i elapsedTime)) s)
           }))"

definition alarmSounded :: "device \<Rightarrow> bool \<times> device" where
  "alarmSounded s = digitalRead wakeUpPin s"

definition systemSleepTest :: "device \<Rightarrow> (bool \<times> device) option" where
  "systemSleepTest s =
     do {
       (_, s) \<leftarrow> waitUntil meterParticlePublish s;
       let s = Particle_publish ''Test'' ''System Stop Mode Sleep'' s;
       (_, s) \<leftarrow> elapsedTimeCorrect True s;
       let s = emit (SleepStop None testDurationSeconds True) s;
       elapsedTimeCorrect False s
     }"

text \<open>
  In \<^verbatim>\<open>rtc.getInterrupt() && digitalRead(wakeUpPin)\<close> the pin is read only when
  the interrupt flag is set.
\<close>

definition rtcAlarmTest :: "device \<Rightarrow> (bool \<times> device) option" where
  "rtcAlarmTest s =
     do {
       (_, s) \<leftarrow> waitUntil meterParticlePublish s;
       let s = Particle_publish ''Test'' ''RTC Alarm'' s;
       (_, s) \<leftarrow> elapsedTimeCorrect True s;
       let s = emit (RtcSetAlarm 10 True) s;
       (_, s) \<leftarrow> waitFor alarmSounded 12000 s;
       let (both, s) =
             (let (fired, s) = rtc_getInterrupt s in
              if fired then digitalRead wakeUpPin s else (False, s));
       if both then elapsedTimeCorrect False s
       else do {
         (_, s) \<leftarrow> waitUntil meterParticlePublish s;
         Some (False, Particle_publish ''Result'' ''Failed - No Interrupt'' s)
       }
     }"

text \<open>
  \<^verbatim>\<open>rtc.getRTCTime() - startTime <= testDurationSeconds\<close> has an \<^verbatim>\<open>unsigned long\<close>
  on the left, so the comparison is unsigned.
\<close>

definition systemSleepWakeOnInterruptTest :: "device \<Rightarrow> (bool \<times> device) option" where
  "systemSleepWakeOnInterruptTest s =
     do {
       (_, s) \<leftarrow> waitUntil meterParticlePublish s;
       let s = Particle_publish ''Test'' ''System Stop Mode with Wake on Interrupt'' s;
       (_, s) \<leftarrow> waitUntil meterParticlePublish s;
       let s = Particle_publish ''Test'' ''Press User Button to Wake'' s;
       let (startTime, s) = rtc_getRTCTime s;
       let s = emit (SleepStop (Some userSwitch) testDurationSeconds True) s;
       let (now, s) = rtc_getRTCTime s;
       if now - startTime \<le> testDurationSeconds then
         do { (_, s) \<leftarrow> waitUntil meterParticlePublish s; Some (True, Particle_publish ''Results'' ''Passed'' s) }
       else
         do { (_, s) \<leftarrow> waitUntil meterParticlePublish s; Some (False, Particle_publish ''Results'' ''Failed'' s) }
     }"

text \<open>
  The two tests that end the run of the program: \<^verbatim>\<open>System.sleep(SLEEP_MODE_DEEP)\<close>
  and the enable pin driven high do not return (``should never reach here''), the
  device starts again at \<^verbatim>\<open>setup()\<close>.
\<close>

definition systemDeepSleepRTCWakeTest :: "device \<Rightarrow> (bool outcome \<times> device) option" where
  "systemDeepSleepRTCWakeTest s =
     (let startTime = EEPROM_get testStartTimeAddr s in
      if startTime = 0 then
        do {
          (_, s) \<leftarrow> waitUntil meterParticlePublish s;
          let s = Particle_publish ''Test'' ''System Deep Mode Sleep with RTC Wake'' s;
          let s = emit (RtcSetAlarm testDurationSeconds True) s;
          (_, s) \<leftarrow> elapsedTimeCorrect True s;
          let s = emit SleepDeep s;
          Some (Suspended, s)
        }
      else
        do { (ok, s) \<leftarrow> elapsedTimeCorrect False s; Some (Returns ok, s) })"

definition powerOffSleepWithRTCWakeTest :: "device \<Rightarrow> (bool outcome \<times> device) option" where
  "powerOffSleepWithRTCWakeTest s =
     (let startTime = EEPROM_get testStartTimeAddr s in
      if startTime = 0 then
        do {
          (_, s) \<leftarrow> waitUntil meterParticlePublish s;
          let s = Particle_publish ''Test'' ''Power Off with EN pin using RTC'' s;
          let s = emit (Delay 5000) s;
          let s = emit (RtcSetAlarm testDurationSeconds False) s;
          (_, s) \<leftarrow> elapsedTimeCorrect True s;
          let s = emit (DigitalWrite DeepSleepPin HIGH) s;
          Some (Suspended, s)
        }
      else
        do { (ok, s) \<leftarrow> elapsedTimeCorrect False s; Some (Returns ok, s) })"

definition watchdogISR :: "device \<Rightarrow> device" where
  "watchdogISR s =
     (let s = emit (DigitalWrite donePin HIGH) s;
          s = emit (DigitalWrite donePin LOW) s
      in s\<lparr>watchDogFlag := True\<rparr>)"

text \<open>
  The globals as their initialisers leave them at power on; the EEPROM and the
  hardware are what they are.
\<close>

definition power_on ::
    "(nat \<Rightarrow> 8 word) \<Rightarrow> 32 word stream \<Rightarrow> 32 word stream \<Rightarrow> (pin \<Rightarrow> bool) stream \<Rightarrow>
     bool stream \<Rightarrow> device" where
  "power_on e ms ts ps fs =
     \<lparr>testNumber = 0, numberOfTestsPassed = 0, watchDogFlag = False, lastPublish = 0,
      testDurationSeconds_v103 = 60, eeprom = e, trace = [],
      millis_in = ms, rtc_in = ts, pins_in = ps, rtcint_in = fs\<rparr>"

text \<open>
  \<^verbatim>\<open>testNumber\<close> is a \<^verbatim>\<open>uint8_t\<close>, promoted to \<^verbatim>\<open>int\<close> for the bounds check;
  \<^verbatim>\<open>numberOfTestsPassed\<close> is an \<^verbatim>\<open>int\<close> loaded from one byte.
\<close>

definition setup_sketch :: "device \<Rightarrow> device option" where
  "setup_sketch s =
     (let s = emit (PinMode wakeUpPin INPUT) s;
          s = emit (PinMode blueLED OUTPUT) s;
          s = emit (PinMode donePin OUTPUT) s;
          s = emit (PinMode DeepSleepPin OUTPUT) s;
          s = s\<lparr>testNumber := EEPROM_read testNumberAddr s\<rparr>;
          s = (if uint (testNumber s) < 0 \<or> 5 < uint (testNumber s)
               then s\<lparr>testNumber := 0\<rparr> else s);
          s = s\<lparr>numberOfTestsPassed := ucast (EEPROM_read numberOfTestsPassedAddr s)\<rparr>;
          s = (if sint (numberOfTestsPassed s) < 0 \<or>
                  sint numberOfTests < sint (numberOfTestsPassed s)
               then s\<lparr>numberOfTestsPassed := 0\<rparr> else s)
      in
      do {
        (_, s) \<leftarrow> waitUntil meterParticlePublish s;
        let s = (if testNumber s \<noteq> 0
                 then Particle_publish ''Status'' ''Continuing after reset'' s
                 else Particle_publish ''Status'' ''Beginning Test Run'' s);
        let s = emit RtcSetup s;
        let s = emit (AttachInterrupt wakeUpPin) s;
        Some s
      })"

text \<open>
  The four statements that follow every test in \<^verbatim>\<open>loop()\<close>: count a pass, go to the
  next test, write both to EEPROM (the count as one byte).
\<close>

definition tally :: "bool \<Rightarrow> device \<Rightarrow> device" where
  "tally passed s =
     (let s = (if passed then s\<lparr>numberOfTestsPassed := numberOfTestsPassed s + 1\<rparr> else s);
          s = s\<lparr>testNumber := testNumber s + 1\<rparr>;
          s = EEPROM_write testNumberAddr (testNumber s) s;
          s = EEPROM_write numberOfTestsPassedAddr (ucast (numberOfTestsPassed s)) s
      in s)"

definition loop :: "device \<Rightarrow> (unit outcome \<times> device) option" where
  "loop s =
     do {
       let s = emit RtcLoop s;
       s \<leftarrow> (if watchDogFlag s then
               do {
                 (_, s) \<leftarrow> waitUntil meterParticlePublish s;
                 let s = Particle_publish ''Watchdog'' ''Interrupt'' s;
                 Some (s\<lparr>watchDogFlag := False\<rparr>)
               }
             else Some s);
       if testNumber s = 0 then
         (let (level, s) = digitalRead userSwitch s in
          Some (Returns (), if level = LOW then s\<lparr>testNumber := testNumber s + 1\<rparr> else s))
       else if testNumber s = 1 then
         do { (passed, s) \<leftarrow> systemSleepTest s; Some (Returns (), tally passed s) }
       else if testNumber s = 2 then
         do { (passed, s) \<leftarrow> rtcAlarmTest s; Some (Returns (), tally passed s) }
       else if testNumber s = 3 then
         do { (passed, s) \<leftarrow> systemSleepWakeOnInterruptTest s; Some (Returns (), tally passed s) }
       else if testNumber s = 4 then
         do {
           (r, s) \<leftarrow> systemDeepSleepRTCWakeTest s;
           case r of
             Suspended \<Rightarrow> Some (Suspended, s)
           | Returns passed \<Rightarrow> Some (Returns (), tally passed s)
         }
       else if testNumber s = 5 then
         do {
           (r, s) \<leftarrow> powerOffSleepWithRTCWakeTest s;
           case r of
             Suspended \<Rightarrow> Some (Suspended, s)
           | Returns passed \<Rightarrow> Some (Returns (), tally passed s)
         }
       else if testNumber s = 6 then
         do {
           let resultStr =
                 snprintf 64
                   (''Sleep Tests Complete - Passed '' @ fmt_i (numberOfTestsPassed s) @
                    '' out of '' @ fmt_i numberOfTests);
           (_, s) \<leftarrow> waitUntil meterParticlePublish s;
           let s = Particle_publish ''Final Result'' resultStr s;
           let s = emit (Delay 30000) s;
           Some (Returns (), s\<lparr>testNumber := 0\<rparr>)
         }
       else Some (Returns (), s)
     }"

section \<open>The v1.03 sketch of README.md\<close>

abbreviation (input) testDurationSecondsAddr :: nat where "testDurationSecondsAddr \<equiv> 10"

text \<open>
  \<^verbatim>\<open>strtol(command, &pEND, 10)\<close> of the C library: white space is skipped, a sign
  is optional, the digits that follow are the value, 0 when there is none; a value
  out of the range of \<^verbatim>\<open>long\<close> (32 bits) is \<^verbatim>\<open>LONG_MIN\<close> or \<^verbatim>\<open>LONG_MAX\<close>.
\<close>

definition isspace :: "char \<Rightarrow> bool" where
  "isspace c \<longleftrightarrow> c \<in> set [CHR '' '', CHR 0x09, CHR 0x0A, CHR 0x0B, CHR 0x0C, CHR 0x0D]"

definition isdigit :: "char \<Rightarrow> bool" where
  "isdigit c \<longleftrightarrow> c \<in> set ''0123456789''"

definition digit_value :: "char \<Rightarrow> nat" where
  "digit_value c = of_char c - 48"

fun digits_value :: "nat \<Rightarrow> string \<Rightarrow> nat" where
  "digits_value acc [] = acc"
| "digits_value acc (c # cs) =
     (if isdigit c then digits_value (10 * acc + digit_value c) cs else acc)"

definition strtol :: "string \<Rightarrow> int" where
  "strtol str =
     (let rest = dropWhile isspace str;
          (negative, ds) =
            (case rest of
               [] \<Rightarrow> (False, rest)
             | c # cs \<Rightarrow>
                 if c = CHR ''-'' then (True, cs)
                 else if c = CHR ''+'' then (False, cs)
                 else (False, rest));
          v = int (digits_value 0 ds)
      in if negative then max (- 2147483648) (- v) else min 2147483647 v)"

definition setDuration :: "string \<Rightarrow> device \<Rightarrow> (32 word \<times> device) option" where
  "setDuration command s =
     (let tempTime = (word_of_int (strtol command) :: 32 word) in
      if sint tempTime < 0 \<or> 3600 < sint tempTime then Some (0, s)
      else
        do {
          let s = s\<lparr>testDurationSeconds_v103 := tempTime\<rparr>;
          let s = EEPROM_put testDurationSecondsAddr (testDurationSeconds_v103 s) s;
          let data =
                snprintf 256 (''Test duration set to '' @ fmt_lu (testDurationSeconds_v103 s));
          (_, s) \<leftarrow> waitUntil meterParticlePublish s;
          let s = Particle_publish ''Test Duration'' data s;
          let s = emit (Delay 1000) s;
          Some (1, s)
        })"

definition setup_v103 :: "device \<Rightarrow> device option" where
  "setup_v103 s =
     (let s = emit (PinMode userSwitch INPUT) s;
          s = emit (PinMode wakeUpPin INPUT) s;
          s = emit (PinMode blueLED OUTPUT) s;
          s = emit (PinMode donePin OUTPUT) s;
          s = emit (RegisterVariable ''Release'') s;
          s = emit (RegisterFunction ''Duration-Sec'') s;
          s = s\<lparr>testNumber := EEPROM_read testNumberAddr s\<rparr>;
          s = (if uint (testNumber s) < 0 \<or> 2 < uint (testNumber s)
               then s\<lparr>testNumber := 0\<rparr> else s);
          s = s\<lparr>testDurationSeconds_v103 := EEPROM_get testDurationSecondsAddr s\<rparr>
      in
      do {
        (_, s) \<leftarrow> waitUntil meterParticlePublish s;
        let s = Particle_publish ''Test Duration'' (fmt_lu (testDurationSeconds_v103 s)) s;
        (_, s) \<leftarrow> waitUntil meterParticlePublish s;
        let s = (if testNumber s \<noteq> 0
                 then Particle_publish ''Status'' ''Continuing after reset'' s
                 else Particle_publish ''Status'' ''Beginning Test Run'' s);
        let s = emit RtcSetup s;
        let s = emit RtcClearAlarm s;
        let s = emit (AttachInterrupt wakeUpPin) s;
        Some s
      })"

section \<open>What the properties are stated with\<close>

text \<open>
  A millisecond counter that keeps running: whatever value is taken as the origin,
  some later reading is at least 12000 ms past it (modulo \<open>2^32\<close>). The busy waits
  of the sketches end on such a counter.
\<close>

definition clock_runs :: "32 word stream \<Rightarrow> bool" where
  "clock_runs ms \<longleftrightarrow> (\<forall>n L. \<exists>k. 12000 \<le> ms !! (n + k) - L)"

text \<open>The pass condition of the verifier as the specification words it.\<close>

definition spec_end_pass :: "int \<Rightarrow> int \<Rightarrow> int \<Rightarrow> bool" where
  "spec_end_pass target tolerance elapsed \<longleftrightarrow>
     target - tolerance \<le> elapsed \<and> elapsed \<le> target"

text \<open>Concrete hardware for the examples: a counter read every second from 5000 ms on.\<close>

definition steady_clock :: "32 word stream" where
  "steady_clock = siterate (\<lambda>m. m + 1000) 5000"

definition blank_eeprom :: "nat \<Rightarrow> 8 word" where
  "blank_eeprom = (\<lambda>a. 0)"

text \<open>Test 1 was started at RTC time 100 and the RTC now reads 119.\<close>

definition short_sleep :: device where
  "short_sleep =
     (power_on (put_bytes testStartTimeAddr 100 blank_eeprom) steady_clock
        (sconst 119) (sconst (\<lambda>p. False)) (sconst False))\<lparr>testNumber := 1\<rparr>"

text \<open>Just powered on with a blank EEPROM; the user switch is held down (it reads LOW).\<close>

definition idle_device :: device where
  "idle_device =
     power_on blank_eeprom steady_clock (sconst 0) (sconst (\<lambda>p. False)) (sconst False)"

text \<open>The run is over: the index is 6, three tests have passed, both are in EEPROM.\<close>

definition reporting_device :: device where
  "reporting_device =
     (power_on (blank_eeprom(testNumberAddr := 6, numberOfTestsPassedAddr := 3)) steady_clock
        (sconst 0) (sconst (\<lambda>p. False)) (sconst False))
     \<lparr>testNumber := 6, numberOfTestsPassed := 3\<rparr>"

text \<open>A first boot: the EEPROM holds values that are no test index and no count.\<close>

definition garbage_device :: device where
  "garbage_device =
     power_on (blank_eeprom(testNumberAddr := 255, numberOfTestsPassedAddr := 200)) steady_clock
        (sconst 0) (sconst (\<lambda>p. False)) (sconst False)"

text \<open>
  The command of \<^verbatim>\<open>setDuration\<close> begins with an integer: after white space and
  an optional sign comes a digit.
\<close>

definition starts_with_integer :: "string \<Rightarrow> bool" where
  "starts_with_integer str =
     (case dropWhile isspace str of
        [] \<Rightarrow> False
      | c # cs \<Rightarrow>
          if c = CHR ''-'' \<or> c = CHR ''+''
          then (case cs of [] \<Rightarrow> False | d # _ \<Rightarrow> isdigit d)
          else isdigit c)"

text \<open>
  The events by which a test arms itself: setting the RTC alarm, entering deep sleep,
  driving the enable pin high, storing a start time other than the sentinel 0.
\<close>

fun re_arms :: "event \<Rightarrow> bool" where
  "re_arms (RtcSetAlarm _ _) = True"
| "re_arms SleepDeep = True"
| "re_arms (DigitalWrite p level) = (p = DeepSleepPin \<and> level = HIGH)"
| "re_arms (EepromPut a v) = (a = testStartTimeAddr \<and> v \<noteq> 0)"
| "re_arms _ = False"

text \<open>
  What \<^verbatim>\<open>elapsedTimeCorrect(false)\<close> computes in a state: the tolerance, the elapsed
  time and the text it publishes.
\<close>

definition adjustment_of :: "device \<Rightarrow> 32 word" where
  "adjustment_of s = (if testNumber s = 4 then 2 + shd (millis_in s) div 1000 else 2)"

definition elapsed_of :: "device \<Rightarrow> 32 word" where
  "elapsed_of s = shd (rtc_in s) - EEPROM_get testStartTimeAddr s"

definition verdict_of :: "device \<Rightarrow> string" where
  "verdict_of s =
     snprintf 32
       ((if elapsedInWindow (adjustment_of s) (elapsed_of s)
         then ''Passed elapsed time '' else ''Failed elapsed time '') @ fmt_i (elapsed_of s))"

text \<open>
  The state of the program, the EEPROM, the trace and the RTC sources are the same in
  both states; the pins and the millisecond counter may have been read.
\<close>

definition same_program :: "device \<Rightarrow> device \<Rightarrow> bool" where
  "same_program s s' \<longleftrightarrow>
     testNumber s' = testNumber s \<and> numberOfTestsPassed s' = numberOfTestsPassed s \<and>
     watchDogFlag s' = watchDogFlag s \<and> lastPublish s' = lastPublish s \<and>
     testDurationSeconds_v103 s' = testDurationSeconds_v103 s \<and>
     eeprom s' = eeprom s \<and> trace s' = trace s \<and> rtc_in s' = rtc_in s \<and>
     rtcint_in s' = rtcint_in s"

text \<open>
  Successive calls of the rate limiter, from whatever call site: the result lists,
  for each call that was admitted, which reading of \<^verbatim>\<open>millis()\<close> became its stamp
  (a refused call reads the counter once, an admitted one twice) and the stamp.
\<close>

fun attempts :: "nat \<Rightarrow> nat \<Rightarrow> device \<Rightarrow> (nat \<times> 32 word) list" where
  "attempts 0 k s = []"
| "attempts (Suc n) k s =
     (let (ok, s1) = meterParticlePublish s in
      if ok then (k + 1, lastPublish s1) # attempts n (k + 2) s1
      else attempts n (k + 1) s1)"

text \<open>
  A boot with test \<open>i\<close> next, no start time stored, and an RTC that was never set
  and reads 0.
\<close>

definition unset_rtc_boot :: "8 word \<Rightarrow> device" where
  "unset_rtc_boot i =
     power_on (blank_eeprom(testNumberAddr := i)) steady_clock (sconst 0)
       (sconst (\<lambda>p. False)) (sconst False)"

text \<open>
  The EEPROM after test \<open>i\<close> has armed and cut the power: the index is \<open>i\<close>, the
  start time is 1700000000.
\<close>

definition armed_eeprom :: "8 word \<Rightarrow> nat \<Rightarrow> 8 word" where
  "armed_eeprom i = put_bytes testStartTimeAddr 1700000000 (blank_eeprom(testNumberAddr := i))"

text \<open>
  A counter read every 600 ms that wraps around \<open>2^32\<close> between its third and its
  fourth reading.
\<close>

definition wrapping_clock :: "32 word stream" where
  "wrapping_clock = siterate (\<lambda>m. m + 600) 4294966000"

definition wrapping_device :: device where
  "wrapping_device =
     power_on blank_eeprom wrapping_clock (sconst 0) (sconst (\<lambda>p. False)) (sconst False)"

text \<open>
  Test 2 with the RTC interrupt flag set, started at RTC time 100 and checked at 120:
  once with the wake pin high, once with the wake pin low.
\<close>

definition alarm_fired :: device where
  "alarm_fired =
     (power_on blank_eeprom steady_clock (100 ## sconst 120) (sconst (\<lambda>p. True)) (sconst True))
     \<lparr>testNumber := 2\<rparr>"

definition wake_pin_low :: device where
  "wake_pin_low =
     (power_on blank_eeprom steady_clock (100 ## sconst 120) (sconst (\<lambda>p. False)) (sconst True))
     \<lparr>testNumber := 2\<rparr>"

section \<open>Auxiliary facts\<close>

subsection \<open>The busy wait on the rate limiter\<close>


lemma clock_runs_sdrop: "clock_runs ms \<Longrightarrow> clock_runs (sdrop j ms)"
  unfolding clock_runs_def
proof (intro allI)
  fix n L assume a: "\<forall>n L. \<exists>k. 12000 \<le> ms !! (n + k) - L"
  from a obtain k where "12000 \<le> ms !! ((j + n) + k) - L" by blast
  then show "\<exists>k. 12000 \<le> sdrop j ms !! (n + k) - L"
    by (auto simp: sdrop_snth add.assoc)
qed

lemma clock_runs_stl: "clock_runs ms \<Longrightarrow> clock_runs (stl ms)"
  using clock_runs_sdrop [of ms 1] by simp

lemma waitUntil_loop_admits:
  "1000 \<le> millis_in s !! k - lastPublish s \<Longrightarrow>
   \<exists>j. j \<le> k \<and> waitConditionWhile meterParticlePublish (\<lambda>s. (True, s)) s =
      Some (s\<lparr>lastPublish := millis_in s !! Suc j, millis_in := sdrop (j + 2) (millis_in s)\<rparr>)"
proof (induction k arbitrary: s)
  case 0
  then show ?case
    by (subst waitConditionWhile.simps) (auto simp: meterParticlePublish_def millis_def)
next
  case (Suc k)
  show ?case
  proof (cases "1000 \<le> shd (millis_in s) - lastPublish s")
    case True
    then show ?thesis
      by (subst waitConditionWhile.simps) (auto simp: meterParticlePublish_def millis_def)
  next
    case False
    let ?s = "s\<lparr>millis_in := stl (millis_in s)\<rparr>"
    from Suc.prems have "1000 \<le> millis_in ?s !! k - lastPublish ?s" by simp
    from Suc.IH [OF this] obtain j where j: "j \<le> k"
      "waitConditionWhile meterParticlePublish (\<lambda>s. (True, s)) ?s =
         Some (?s\<lparr>lastPublish := millis_in ?s !! Suc j,
                 millis_in := sdrop (j + 2) (millis_in ?s)\<rparr>)"
      by blast
    have "waitConditionWhile meterParticlePublish (\<lambda>s. (True, s)) s =
        waitConditionWhile meterParticlePublish (\<lambda>s. (True, s)) ?s"
      using False
      by (subst waitConditionWhile.simps) (simp add: meterParticlePublish_def millis_def)
    with j show ?thesis
      by (intro exI [of _ "Suc j"]) simp
  qed
qed

lemma meterParticlePublish_frame:
  "testNumber (snd (meterParticlePublish s)) = testNumber s \<and>
   numberOfTestsPassed (snd (meterParticlePublish s)) = numberOfTestsPassed s \<and>
   watchDogFlag (snd (meterParticlePublish s)) = watchDogFlag s \<and>
   testDurationSeconds_v103 (snd (meterParticlePublish s)) = testDurationSeconds_v103 s \<and>
   eeprom (snd (meterParticlePublish s)) = eeprom s \<and>
   trace (snd (meterParticlePublish s)) = trace s \<and>
   rtc_in (snd (meterParticlePublish s)) = rtc_in s \<and>
   pins_in (snd (meterParticlePublish s)) = pins_in s \<and>
   rtcint_in (snd (meterParticlePublish s)) = rtcint_in s \<and>
   (clock_runs (millis_in s) \<longrightarrow> clock_runs (millis_in (snd (meterParticlePublish s))))"
  by (cases "1000 \<le> shd (millis_in s) - lastPublish s")
     (simp_all add: meterParticlePublish_def millis_def clock_runs_stl)

lemma waitUntil_runs:
  assumes "clock_runs (millis_in s)"
  shows "\<exists>b s'. waitUntil meterParticlePublish s = Some (b, s') \<and>
     testNumber s' = testNumber s \<and>
     numberOfTestsPassed s' = numberOfTestsPassed s \<and>
     watchDogFlag s' = watchDogFlag s \<and>
     testDurationSeconds_v103 s' = testDurationSeconds_v103 s \<and>
     eeprom s' = eeprom s \<and>
     trace s' = trace s \<and>
     rtc_in s' = rtc_in s \<and>
     pins_in s' = pins_in s \<and>
     rtcint_in s' = rtcint_in s \<and>
     clock_runs (millis_in s')"
proof -
  from assms obtain k where "12000 \<le> millis_in s !! (0 + k) - lastPublish s"
    unfolding clock_runs_def by blast
  then have "1000 \<le> millis_in s !! k - lastPublish s"
    by (simp add: word_le_nat_alt)
  from waitUntil_loop_admits [OF this] obtain j where
    l: "waitConditionWhile meterParticlePublish (\<lambda>s. (True, s)) s =
      Some (s\<lparr>lastPublish := millis_in s !! Suc j, millis_in := sdrop (j + 2) (millis_in s)\<rparr>)"
    by blast
  define s1 where
    "s1 = s\<lparr>lastPublish := millis_in s !! Suc j, millis_in := sdrop (j + 2) (millis_in s)\<rparr>"
  have c1: "clock_runs (millis_in s1)"
    using assms clock_runs_sdrop [of "millis_in s" "j + 2"] by (simp add: s1_def)
  have w: "waitUntil meterParticlePublish s =
      Some (fst (meterParticlePublish s1), snd (meterParticlePublish s1))"
    by (simp add: waitUntil_def waitCondition_def l s1_def)
  have f1: "testNumber s1 = testNumber s" "numberOfTestsPassed s1 = numberOfTestsPassed s"
    "watchDogFlag s1 = watchDogFlag s" "testDurationSeconds_v103 s1 = testDurationSeconds_v103 s"
    "eeprom s1 = eeprom s" "trace s1 = trace s" "rtc_in s1 = rtc_in s" "pins_in s1 = pins_in s"
    "rtcint_in s1 = rtcint_in s"
    by (simp_all add: s1_def)
  from meterParticlePublish_frame [of s1] c1 f1 w show ?thesis
    by (intro exI [of _ "fst (meterParticlePublish s1)"] exI [of _ "snd (meterParticlePublish s1)"])
       simp
qed

lemma waitUntil_bind:
  assumes "clock_runs (millis_in s)"
  shows "Option.bind (waitUntil meterParticlePublish s) (case_prod f) =
           f (fst (the (waitUntil meterParticlePublish s)))
             (snd (the (waitUntil meterParticlePublish s)))"
  using waitUntil_runs [OF assms] by auto

lemma waitUntil_frame:
  assumes "clock_runs (millis_in s)"
  shows "testNumber (snd (the (waitUntil meterParticlePublish s))) = testNumber s"
    and "numberOfTestsPassed (snd (the (waitUntil meterParticlePublish s))) =
           numberOfTestsPassed s"
    and "watchDogFlag (snd (the (waitUntil meterParticlePublish s))) = watchDogFlag s"
    and "testDurationSeconds_v103 (snd (the (waitUntil meterParticlePublish s))) =
           testDurationSeconds_v103 s"
    and "eeprom (snd (the (waitUntil meterParticlePublish s))) = eeprom s"
    and "trace (snd (the (waitUntil meterParticlePublish s))) = trace s"
    and "rtc_in (snd (the (waitUntil meterParticlePublish s))) = rtc_in s"
    and "pins_in (snd (the (waitUntil meterParticlePublish s))) = pins_in s"
    and "rtcint_in (snd (the (waitUntil meterParticlePublish s))) = rtcint_in s"
    and "clock_runs (millis_in (snd (the (waitUntil meterParticlePublish s))))"
  using waitUntil_runs [OF assms] by auto

lemmas wait_simps = waitUntil_bind waitUntil_frame clock_runs_stl clock_runs_sdrop

lemmas io_defs = emit_def millis_def rtc_getRTCTime_def rtc_getInterrupt_def digitalRead_def
  Particle_publish_def EEPROM_read_def EEPROM_write_def EEPROM_get_def EEPROM_put_def

subsection \<open>Signed 32-bit arithmetic\<close>


lemma sint_small: "uint (a::32 word) < 2147483648 \<Longrightarrow> sint a = uint a"
proof -
  assume a: "uint a < 2147483648"
  have "sint a = signed_take_bit 31 (uint a)" by (simp add: sint_uint)
  also have "\<dots> = uint a"
  proof (rule signed_take_bit_int_eq_self)
    show "- (2 ^ 31) \<le> uint a" by (rule order_trans [of _ 0]) simp_all
    show "uint a < 2 ^ 31" using a by simp
  qed
  finally show ?thesis by simp
qed

lemma sint_diff_small:
  fixes e a :: "32 word"
  assumes "- 2147483648 \<le> sint e - sint a" "sint e - sint a < 2147483648"
  shows "sint (e - a) = sint e - sint a"
  using assms by (simp add: sint_word_diff signed_take_bit_int_eq_self)

lemma elapsedInWindow_iff:
  assumes a: "uint a \<le> 4294969"
  shows "elapsedInWindow a e \<longleftrightarrow> 20 \<le> sint e \<and> sint e \<le> 20 + uint a"
proof (cases "20 \<le> sint e")
  case True
  have sa: "sint a = uint a" using a by (intro sint_small) simp
  have "sint e < 2147483648" using sint_lt [of e] by simp
  moreover have "0 \<le> uint a" by simp
  ultimately have "sint (e - a) = sint e - sint a"
    using True sa a by (intro sint_diff_small) linarith+
  with True sa show ?thesis
    by (auto simp: elapsedInWindow_def testDurationSeconds_def)
next
  case False
  then show ?thesis by (simp add: elapsedInWindow_def testDurationSeconds_def)
qed

lemma adj_val: "uint (2 + (m::32 word) div 1000) = 2 + uint m div 1000"
proof -
  have "uint m < 4294967296" using uint_lt2p [of m] by simp
  then have "uint m div 1000 \<le> 4294967" by linarith
  moreover have "0 \<le> uint m div 1000" by (simp add: pos_imp_zdiv_nonneg_iff)
  ultimately have "(2 + uint m div 1000) mod 4294967296 = 2 + uint m div 1000"
    by (intro mod_pos_pos_trivial) linarith+
  then show ?thesis
    by (simp add: uint_word_ariths uint_div)
qed

lemma sint_ucast_byte: "sint (ucast (b :: 8 word) :: 32 word) = uint b"
proof -
  have "uint b < 256" using uint_lt2p [of b] by simp
  then have "uint (ucast b :: 32 word) = uint b" by (simp add: uint_up_ucast is_up)
  moreover have "uint (ucast b :: 32 word) < 2147483648"
    using \<open>uint b < 256\<close> by (simp add: uint_up_ucast is_up)
  ultimately show ?thesis using sint_small [of "ucast b"] by simp
qed

lemma sint_word_of_int:
  "- 2147483648 \<le> v \<Longrightarrow> v \<le> 2147483647 \<Longrightarrow> sint (word_of_int v :: 32 word) = v"
  by (simp add: sint_sbintrunc' signed_take_bit_int_eq_self)

lemma unat_word_of_int:
  "0 \<le> v \<Longrightarrow> v \<le> 3600 \<Longrightarrow> unat (word_of_int v :: 32 word) = nat v"
  by (simp add: unat_eq_nat_uint uint_word_of_int take_bit_int_eq_self)

subsection \<open>EEPROM and formatting\<close>

lemma get_put_bytes:
  fixes v :: "32 word"
  shows "get_bytes a (put_bytes a v e) = v"
proof -
  let ?w = "or (ucast (ucast v :: 8 word))
          (or (push_bit 8 (ucast (ucast (drop_bit 8 v) :: 8 word)))
            (or (push_bit 16 (ucast (ucast (drop_bit 16 v) :: 8 word)))
                (push_bit 24 (ucast (ucast (drop_bit 24 v) :: 8 word))))) :: 32 word"
  have "?w = v"
  proof (rule bit_word_eqI)
    fix n assume "n < LENGTH(32)"
    then have n: "n < 32" by simp
    consider "n < 8" | "8 \<le> n" "n < 16" | "16 \<le> n" "n < 24" | "24 \<le> n"
      by linarith
    then show "bit ?w n = bit v n"
      using n by cases (auto simp: bit_simps)
  qed
  then show ?thesis by (simp add: get_bytes_def put_bytes_def)
qed

lemma length_dec: "0 < k \<Longrightarrow> n < 10 ^ k \<Longrightarrow> length (dec n) \<le> k"
proof (induction k arbitrary: n)
  case 0
  then show ?case by simp
next
  case (Suc k)
  show ?case
  proof (cases "n < 10")
    case True
    then show ?thesis by (subst dec.simps) simp
  next
    case False
    with Suc.prems have "0 < k" by (cases k) auto
    moreover from Suc.prems have "n div 10 < 10 ^ k" by (simp add: less_mult_imp_div_less mult.commute)
    ultimately have "length (dec (n div 10)) \<le> k" by (rule Suc.IH)
    with False show ?thesis by (subst dec.simps) simp
  qed
qed

lemma length_fmt_i: "length (fmt_i w) \<le> 11"
proof -
  have lo: "- 2147483648 \<le> sint w" using sint_ge [of w] by simp
  have hi: "sint w < 2147483648" using sint_lt [of w] by simp
  have "nat (- sint w) < 10 ^ 10" using lo by simp
  moreover have "nat (sint w) < 10 ^ 10" using hi by simp
  ultimately show ?thesis
    using length_dec [of 10 "nat (- sint w)"] length_dec [of 10 "nat (sint w)"]
    by (simp add: fmt_i_def)
qed

lemma fmt_i_numberOfTests: "fmt_i numberOfTests = ''5''"
  by (simp add: fmt_i_def numberOfTests_def dec.simps)

subsection \<open>The example counter\<close>

lemma snth_siterate_add: "siterate (\<lambda>m. m + (d::32 word)) x !! n = x + of_nat n * d"
  by (induction n arbitrary: x) (simp_all add: algebra_simps)

lemma clock_runs_siterate: "clock_runs (siterate (\<lambda>m. m + 1000) x)"
  unfolding clock_runs_def
proof (intro allI)
  fix n and L :: "32 word"
  let ?y = "siterate (\<lambda>m. m + 1000) x !! n"
  have nth: "\<And>k. siterate (\<lambda>m. m + 1000) x !! (n + k) = ?y + of_nat k * 1000"
    by (simp only: snth_siterate_add) (simp add: algebra_simps)
  show "\<exists>k. 12000 \<le> siterate (\<lambda>m. m + 1000) x !! (n + k) - L"
  proof (cases "12000 \<le> ?y - L")
    case True
    then show ?thesis by (intro exI [of _ 0]) simp
  next
    case False
    then have "unat (?y - L) < 12000" by (simp add: word_le_nat_alt not_le)
    then have "unat (?y - L + 12000) = unat (?y - L) + 12000"
      by (simp add: unat_word_ariths)
    then have "12000 \<le> ?y - L + 12000"
      by (simp add: word_le_nat_alt)
    then have "12000 \<le> (?y + of_nat 12 * 1000) - L"
      by (simp add: algebra_simps)
    then show ?thesis unfolding nth [symmetric] by blast
  qed
qed

lemma steady_clock_runs: "clock_runs steady_clock"
  by (simp add: steady_clock_def clock_runs_siterate)

lemma idle_device_runs: "clock_runs (millis_in idle_device)"
  by (simp add: idle_device_def power_on_def steady_clock_runs)

subsection \<open>The reporting state\<close>

lemma loop_6:
  assumes "testNumber s = 6" and "clock_runs (millis_in s)"
  shows "\<exists>s'. loop s = Some (Returns (), s') \<and>
           trace s' = trace s @ [RtcLoop] @
             (if watchDogFlag s then [Publish ''Watchdog'' ''Interrupt''] else []) @
             [Publish ''Final Result''
                (''Sleep Tests Complete - Passed '' @ fmt_i (numberOfTestsPassed s) @
                 '' out of 5''),
              Delay 30000] \<and>
           testNumber s' = 0 \<and>
           numberOfTestsPassed s' = numberOfTestsPassed s \<and>
           eeprom s' = eeprom s"
proof -
  have "length (''Sleep Tests Complete - Passed '' @ fmt_i (numberOfTestsPassed s) @
      '' out of '' @ fmt_i numberOfTests) \<le> 63"
    using length_fmt_i [of "numberOfTestsPassed s"] by (simp add: fmt_i_numberOfTests)
  then have "snprintf 64 (''Sleep Tests Complete - Passed '' @ fmt_i (numberOfTestsPassed s) @
      '' out of '' @ fmt_i numberOfTests) =
      ''Sleep Tests Complete - Passed '' @ fmt_i (numberOfTestsPassed s) @ '' out of 5''"
    unfolding snprintf_def by (simp add: fmt_i_numberOfTests)
  with assms show ?thesis
    by (cases "watchDogFlag s") (simp_all add: loop_def io_defs wait_simps Let_def)
qed

subsection \<open>Parsing and setting the duration\<close>

lemmas strtol_defs = strtol_def isspace_def isdigit_def digit_value_def

lemma strtol_range: "- 2147483648 \<le> strtol str \<and> strtol str \<le> 2147483647"
  by (auto simp: strtol_def Let_def split: list.splits prod.splits)

lemma digits_value_no_digit: "(case ds of [] \<Rightarrow> True | d # _ \<Rightarrow> \<not> isdigit d) \<Longrightarrow> digits_value acc ds = acc"
  by (cases ds) auto

lemma strtol_no_integer:
  assumes "\<not> starts_with_integer str"
  shows "strtol str = 0"
proof (cases "dropWhile isspace str")
  case Nil
  show ?thesis unfolding strtol_def Nil by simp
next
  case (Cons c cs)
  show ?thesis
  proof (cases "c = CHR ''-'' \<or> c = CHR ''+''")
    case True
    with assms Cons have "case cs of [] \<Rightarrow> True | d # _ \<Rightarrow> \<not> isdigit d"
      by (auto simp: starts_with_integer_def split: list.splits)
    then have "digits_value 0 cs = 0" by (rule digits_value_no_digit)
    with True show ?thesis unfolding strtol_def Cons by auto
  next
    case False
    with assms Cons have "\<not> isdigit c" by (simp add: starts_with_integer_def)
    with False show ?thesis unfolding strtol_def Cons by simp
  qed
qed

lemma sint_strtol: "sint (word_of_int (strtol str) :: 32 word) = strtol str"
  using strtol_range [of str] by (intro sint_word_of_int) auto

lemma setDuration_rejects:
  assumes "strtol command < 0 \<or> 3600 < strtol command"
  shows "setDuration command s = Some (0, s)"
  using assms by (auto simp: setDuration_def sint_strtol)

lemma setDuration_accepts:
  assumes "0 \<le> strtol command" and "strtol command \<le> 3600" and "clock_runs (millis_in s)"
  shows "\<exists>s'. setDuration command s = Some (1, s') \<and>
           testDurationSeconds_v103 s' = word_of_int (strtol command) \<and>
           EEPROM_get testDurationSecondsAddr s' = word_of_int (strtol command) \<and>
           trace s' = trace s @
             [EepromPut testDurationSecondsAddr (word_of_int (strtol command)),
              Publish ''Test Duration'' (''Test duration set to '' @ dec (nat (strtol command))),
              Delay 1000]"
proof -
  let ?v = "strtol command"
  have "nat ?v < 10 ^ 4" using assms by simp
  then have "length (dec (nat ?v)) \<le> 4" by (intro length_dec) simp_all
  then have "snprintf 256 (''Test duration set to '' @ dec (nat ?v)) =
      ''Test duration set to '' @ dec (nat ?v)"
    by (simp add: snprintf_def)
  moreover have "fmt_lu (word_of_int ?v) = dec (nat ?v)"
    using assms by (simp add: fmt_lu_def unat_word_of_int)
  ultimately show ?thesis
    using assms
    by (simp add: setDuration_def sint_strtol io_defs wait_simps Let_def get_put_bytes)
qed

subsection \<open>Boot\<close>

lemma setup_sketch_frame:
  assumes "clock_runs (millis_in s)"
  shows "\<exists>s'. setup_sketch s = Some s' \<and>
            testNumber s' =
              (if 5 < uint (EEPROM_read testNumberAddr s) then 0
               else EEPROM_read testNumberAddr s) \<and>
            numberOfTestsPassed s' =
              (if uint numberOfTests < uint (EEPROM_read numberOfTestsPassedAddr s) then 0
               else ucast (EEPROM_read numberOfTestsPassedAddr s)) \<and>
            watchDogFlag s' = watchDogFlag s \<and>
            eeprom s' = eeprom s \<and>
            trace s' = trace s @
              [PinMode wakeUpPin INPUT, PinMode blueLED OUTPUT, PinMode donePin OUTPUT,
               PinMode DeepSleepPin OUTPUT,
               Publish ''Status''
                 (if testNumber s' \<noteq> 0 then ''Continuing after reset''
                  else ''Beginning Test Run''),
               RtcSetup, AttachInterrupt wakeUpPin] \<and>
            rtc_in s' = rtc_in s \<and>
            clock_runs (millis_in s')"
proof -
  have n: "sint numberOfTests = 5" "uint numberOfTests = 5" by (simp_all add: numberOfTests_def)
  let ?s1 = "emit (PinMode DeepSleepPin OUTPUT) (emit (PinMode donePin OUTPUT)
     (emit (PinMode blueLED OUTPUT) (emit (PinMode wakeUpPin INPUT) s)))"
  let ?t = "if 5 < uint (EEPROM_read testNumberAddr s) then 0 else EEPROM_read testNumberAddr s"
  let ?p = "if 5 < uint (EEPROM_read numberOfTestsPassedAddr s) then 0
            else ucast (EEPROM_read numberOfTestsPassedAddr s) :: 32 word"
  let ?s2 = "?s1\<lparr>testNumber := ?t, numberOfTestsPassed := ?p\<rparr>"
  have c: "clock_runs (millis_in ?s2)" using assms by (simp add: emit_def)
  have "setup_sketch s =
      Option.bind (waitUntil meterParticlePublish ?s2)
        (\<lambda>(_, s). Some (emit (AttachInterrupt wakeUpPin) (emit RtcSetup
           (if testNumber s \<noteq> 0 then Particle_publish ''Status'' ''Continuing after reset'' s
            else Particle_publish ''Status'' ''Beginning Test Run'' s))))"
    unfolding setup_sketch_def Let_def
    by (simp add: EEPROM_read_def emit_def sint_ucast_byte n)
  then show ?thesis
    using c by (simp add: waitUntil_bind waitUntil_frame emit_def Particle_publish_def EEPROM_read_def n)
qed

lemma setup_v103_run:
  assumes "clock_runs (millis_in s)"
  shows "\<exists>s'. setup_v103 s = Some s' \<and>
            testNumber s' =
              (if 2 < uint (EEPROM_read testNumberAddr s) then 0
               else EEPROM_read testNumberAddr s)"
proof (cases "2 < uint (EEPROM_read testNumberAddr s)")
  case True
  with assms show ?thesis
    unfolding setup_v103_def Let_def
    by (simp add: io_defs wait_simps)
next
  case False
  with assms show ?thesis
    unfolding setup_v103_def Let_def
    by (simp add: io_defs wait_simps)
qed

subsection \<open>The elapsed-time verifier\<close>

lemma elapsedTimeCorrect_begin:
  "\<exists>s'. elapsedTimeCorrect True s = Some (False, s') \<and>
     trace s' = trace s @ [EepromPut testStartTimeAddr (shd (rtc_in s))] \<and>
     eeprom s' = put_bytes testStartTimeAddr (shd (rtc_in s)) (eeprom s) \<and>
     testNumber s' = testNumber s \<and>
     numberOfTestsPassed s' = numberOfTestsPassed s \<and>
     watchDogFlag s' = watchDogFlag s \<and>
     lastPublish s' = lastPublish s \<and>
     rtc_in s' = stl (rtc_in s) \<and>
     pins_in s' = pins_in s \<and>
     rtcint_in s' = rtcint_in s \<and>
     (clock_runs (millis_in s) \<longrightarrow> clock_runs (millis_in s'))"
  by (cases "testNumber s = 4") (simp_all add: elapsedTimeCorrect_def io_defs Let_def clock_runs_stl)

lemma begin_bind:
  "Option.bind (elapsedTimeCorrect True s) f = f (False, snd (the (elapsedTimeCorrect True s)))"
  using elapsedTimeCorrect_begin [of s] by auto

lemma begin_frame:
  shows "trace (snd (the (elapsedTimeCorrect True s))) =
           trace s @ [EepromPut testStartTimeAddr (shd (rtc_in s))]"
    and "eeprom (snd (the (elapsedTimeCorrect True s))) =
           put_bytes testStartTimeAddr (shd (rtc_in s)) (eeprom s)"
    and "testNumber (snd (the (elapsedTimeCorrect True s))) = testNumber s"
    and "numberOfTestsPassed (snd (the (elapsedTimeCorrect True s))) = numberOfTestsPassed s"
    and "watchDogFlag (snd (the (elapsedTimeCorrect True s))) = watchDogFlag s"
    and "rtc_in (snd (the (elapsedTimeCorrect True s))) = stl (rtc_in s)"
    and "pins_in (snd (the (elapsedTimeCorrect True s))) = pins_in s"
    and "rtcint_in (snd (the (elapsedTimeCorrect True s))) = rtcint_in s"
    and "clock_runs (millis_in s) \<Longrightarrow> clock_runs (millis_in (snd (the (elapsedTimeCorrect True s))))"
  using elapsedTimeCorrect_begin [of s] by auto

lemma elapsedTimeCorrect_finish:
  assumes "clock_runs (millis_in s)"
  shows "\<exists>s'. elapsedTimeCorrect False s =
             Some (elapsedInWindow (adjustment_of s) (elapsed_of s), s') \<and>
     trace s' = trace s @ [EepromPut testStartTimeAddr 0, Publish ''Result'' (verdict_of s)] \<and>
     eeprom s' = put_bytes testStartTimeAddr 0 (eeprom s) \<and>
     testNumber s' = testNumber s \<and>
     numberOfTestsPassed s' = numberOfTestsPassed s \<and>
     watchDogFlag s' = watchDogFlag s \<and>
     rtc_in s' = stl (rtc_in s) \<and>
     pins_in s' = pins_in s \<and>
     rtcint_in s' = rtcint_in s \<and>
     clock_runs (millis_in s')"
proof (cases "testNumber s = 4")
  case True
  from True assms show ?thesis
    by (cases "elapsedInWindow (adjustment_of s) (elapsed_of s)")
       (auto simp: elapsedTimeCorrect_def io_defs Let_def wait_simps adjustment_of_def
          elapsed_of_def verdict_of_def)
next
  case False
  from False assms show ?thesis
    by (cases "elapsedInWindow (adjustment_of s) (elapsed_of s)")
       (auto simp: elapsedTimeCorrect_def io_defs Let_def wait_simps adjustment_of_def
          elapsed_of_def verdict_of_def)
qed

lemma finish_bind:
  assumes "clock_runs (millis_in s)"
  shows "Option.bind (elapsedTimeCorrect False s) f =
           f (elapsedInWindow (adjustment_of s) (elapsed_of s),
              snd (the (elapsedTimeCorrect False s)))"
  using elapsedTimeCorrect_finish [OF assms] by auto

lemma finish_frame:
  assumes "clock_runs (millis_in s)"
  shows "trace (snd (the (elapsedTimeCorrect False s))) =
           trace s @ [EepromPut testStartTimeAddr 0, Publish ''Result'' (verdict_of s)]"
    and "eeprom (snd (the (elapsedTimeCorrect False s))) =
           put_bytes testStartTimeAddr 0 (eeprom s)"
    and "testNumber (snd (the (elapsedTimeCorrect False s))) = testNumber s"
    and "numberOfTestsPassed (snd (the (elapsedTimeCorrect False s))) = numberOfTestsPassed s"
    and "watchDogFlag (snd (the (elapsedTimeCorrect False s))) = watchDogFlag s"
    and "rtc_in (snd (the (elapsedTimeCorrect False s))) = stl (rtc_in s)"
    and "pins_in (snd (the (elapsedTimeCorrect False s))) = pins_in s"
    and "rtcint_in (snd (the (elapsedTimeCorrect False s))) = rtcint_in s"
    and "clock_runs (millis_in (snd (the (elapsedTimeCorrect False s))))"
  using elapsedTimeCorrect_finish [OF assms] by auto

lemmas verifier_simps = begin_bind begin_frame finish_bind finish_frame

subsection \<open>Arming and resuming\<close>

lemma deep_sleep_arms:
  assumes "EEPROM_get testStartTimeAddr s = 0" and "clock_runs (millis_in s)"
  shows "\<exists>s'. systemDeepSleepRTCWakeTest s = Some (Suspended, s') \<and>
           trace s' = trace s @
             [Publish ''Test'' ''System Deep Mode Sleep with RTC Wake'',
              RtcSetAlarm testDurationSeconds True,
              EepromPut testStartTimeAddr (shd (rtc_in s)),
              SleepDeep] \<and>
           eeprom s' = put_bytes testStartTimeAddr (shd (rtc_in s)) (eeprom s)"
  using assms
  by (simp add: systemDeepSleepRTCWakeTest_def Let_def wait_simps verifier_simps
        emit_def Particle_publish_def)

lemma power_off_arms:
  assumes "EEPROM_get testStartTimeAddr s = 0" and "clock_runs (millis_in s)"
  shows "\<exists>s'. powerOffSleepWithRTCWakeTest s = Some (Suspended, s') \<and>
           trace s' = trace s @
             [Publish ''Test'' ''Power Off with EN pin using RTC'',
              Delay 5000,
              RtcSetAlarm testDurationSeconds False,
              EepromPut testStartTimeAddr (shd (rtc_in s)),
              DigitalWrite DeepSleepPin HIGH] \<and>
           eeprom s' = put_bytes testStartTimeAddr (shd (rtc_in s)) (eeprom s)"
  using assms
  by (simp add: powerOffSleepWithRTCWakeTest_def Let_def wait_simps verifier_simps
        emit_def Particle_publish_def)

lemma loop_resumes:
  assumes "testNumber s = 4 \<or> testNumber s = 5"
      and "EEPROM_get testStartTimeAddr s \<noteq> 0"
      and "\<not> watchDogFlag s"
      and "clock_runs (millis_in s)"
  shows "\<exists>s' verdict. loop s = Some (Returns (), s') \<and>
           trace s' = trace s @
             [RtcLoop, EepromPut testStartTimeAddr 0, Publish ''Result'' verdict,
              EepromWrite testNumberAddr (testNumber s + 1),
              EepromWrite numberOfTestsPassedAddr (ucast (numberOfTestsPassed s'))] \<and>
           testNumber s' = testNumber s + 1 \<and>
           EEPROM_get testStartTimeAddr s' = 0"
proof -
  let ?s = "emit RtcLoop s"
  have c: "clock_runs (millis_in ?s)" using assms by (simp add: emit_def)
  have g: "EEPROM_get testStartTimeAddr ?s \<noteq> 0" using assms by (simp add: emit_def EEPROM_get_def)
  from assms(1) show ?thesis
  proof
    assume t: "testNumber s = 4"
    have "loop s = Option.bind (elapsedTimeCorrect False ?s)
        (\<lambda>(ok, s). Some (Returns (), tally ok s))"
      using t assms(3) g
      by (simp add: loop_def Let_def systemDeepSleepRTCWakeTest_def emit_def split_def)
    then show ?thesis
      using c t
      by (cases "elapsedInWindow (adjustment_of ?s) (elapsed_of ?s)")
         (simp_all add: verifier_simps tally_def Let_def io_defs get_bytes_def put_bytes_def)
  next
    assume t: "testNumber s = 5"
    have "loop s = Option.bind (elapsedTimeCorrect False ?s)
        (\<lambda>(ok, s). Some (Returns (), tally ok s))"
      using t assms(3) g
      by (simp add: loop_def Let_def powerOffSleepWithRTCWakeTest_def emit_def split_def)
    then show ?thesis
      using c t
      by (cases "elapsedInWindow (adjustment_of ?s) (elapsed_of ?s)")
         (simp_all add: verifier_simps tally_def Let_def io_defs get_bytes_def put_bytes_def)
  qed
qed

lemma loop_arms:
  assumes "EEPROM_get testStartTimeAddr s = 0"
      and "\<not> watchDogFlag s"
      and "clock_runs (millis_in s)"
  shows "testNumber s = 4 \<Longrightarrow>
         \<exists>s'. loop s = Some (Suspended, s') \<and>
           trace s' = trace s @
             [RtcLoop, Publish ''Test'' ''System Deep Mode Sleep with RTC Wake'',
              RtcSetAlarm testDurationSeconds True,
              EepromPut testStartTimeAddr (shd (rtc_in s)), SleepDeep] \<and>
           eeprom s' = put_bytes testStartTimeAddr (shd (rtc_in s)) (eeprom s)"
    and "testNumber s = 5 \<Longrightarrow>
         \<exists>s'. loop s = Some (Suspended, s') \<and>
           trace s' = trace s @
             [RtcLoop, Publish ''Test'' ''Power Off with EN pin using RTC'', Delay 5000,
              RtcSetAlarm testDurationSeconds False,
              EepromPut testStartTimeAddr (shd (rtc_in s)),
              DigitalWrite DeepSleepPin HIGH] \<and>
           eeprom s' = put_bytes testStartTimeAddr (shd (rtc_in s)) (eeprom s)"
proof -
  let ?s = "emit RtcLoop s"
  have c: "clock_runs (millis_in ?s)" using assms by (simp add: emit_def)
  have g: "EEPROM_get testStartTimeAddr ?s = 0" using assms by (simp add: emit_def EEPROM_get_def)
  {
    assume t: "testNumber s = 4"
    have l: "loop s = Option.bind (systemDeepSleepRTCWakeTest ?s)
        (\<lambda>(r, s). case r of Suspended \<Rightarrow> Some (Suspended, s)
                     | Returns passed \<Rightarrow> Some (Returns (), tally passed s))"
      using t assms(2) by (simp add: loop_def Let_def emit_def)
    from deep_sleep_arms [OF g c] obtain s' where
      "systemDeepSleepRTCWakeTest ?s = Some (Suspended, s')"
      "trace s' = trace ?s @
             [Publish ''Test'' ''System Deep Mode Sleep with RTC Wake'',
              RtcSetAlarm testDurationSeconds True,
              EepromPut testStartTimeAddr (shd (rtc_in ?s)), SleepDeep]"
      "eeprom s' = put_bytes testStartTimeAddr (shd (rtc_in ?s)) (eeprom ?s)"
      by blast
    then show "\<exists>s'. loop s = Some (Suspended, s') \<and>
           trace s' = trace s @
             [RtcLoop, Publish ''Test'' ''System Deep Mode Sleep with RTC Wake'',
              RtcSetAlarm testDurationSeconds True,
              EepromPut testStartTimeAddr (shd (rtc_in s)), SleepDeep] \<and>
           eeprom s' = put_bytes testStartTimeAddr (shd (rtc_in s)) (eeprom s)"
      unfolding l by (simp add: emit_def)
  }
  {
    assume t: "testNumber s = 5"
    have l: "loop s = Option.bind (powerOffSleepWithRTCWakeTest ?s)
        (\<lambda>(r, s). case r of Suspended \<Rightarrow> Some (Suspended, s)
                     | Returns passed \<Rightarrow> Some (Returns (), tally passed s))"
      using t assms(2) by (simp add: loop_def Let_def emit_def)
    from power_off_arms [OF g c] obtain s' where
      "powerOffSleepWithRTCWakeTest ?s = Some (Suspended, s')"
      "trace s' = trace ?s @
             [Publish ''Test'' ''Power Off with EN pin using RTC'', Delay 5000,
              RtcSetAlarm testDurationSeconds False,
              EepromPut testStartTimeAddr (shd (rtc_in ?s)),
              DigitalWrite DeepSleepPin HIGH]"
      "eeprom s' = put_bytes testStartTimeAddr (shd (rtc_in ?s)) (eeprom ?s)"
      by blast
    then show "\<exists>s'. loop s = Some (Suspended, s') \<and>
           trace s' = trace s @
             [RtcLoop, Publish ''Test'' ''Power Off with EN pin using RTC'', Delay 5000,
              RtcSetAlarm testDurationSeconds False,
              EepromPut testStartTimeAddr (shd (rtc_in s)),
              DigitalWrite DeepSleepPin HIGH] \<and>
           eeprom s' = put_bytes testStartTimeAddr (shd (rtc_in s)) (eeprom s)"
      unfolding l by (simp add: emit_def)
  }
qed

lemma put_zero_blank:
  "put_bytes (Suc 0) 0 (blank_eeprom(testNumberAddr := i)) = blank_eeprom(testNumberAddr := i)"
  by (rule ext) (simp add: put_bytes_def blank_eeprom_def)

lemma unset_rtc_boot_run:
  assumes "i = 4 \<or> i = 5"
  shows "\<exists>s1 s2. setup_sketch (unset_rtc_boot i) = Some s1 \<and> loop s1 = Some (Suspended, s2) \<and>
     filter re_arms (trace s2) =
       (if i = 4 then [RtcSetAlarm testDurationSeconds True, SleepDeep]
        else [RtcSetAlarm testDurationSeconds False, DigitalWrite DeepSleepPin HIGH]) \<and>
     eeprom s2 = blank_eeprom(testNumberAddr := i)"
proof -
  let ?s0 = "unset_rtc_boot i"
  have c0: "clock_runs (millis_in ?s0)"
    by (simp add: unset_rtc_boot_def power_on_def steady_clock_runs)
  from setup_sketch_frame [OF c0] obtain s1 where
    s1: "setup_sketch ?s0 = Some s1"
      "testNumber s1 = (if 5 < uint (EEPROM_read testNumberAddr ?s0) then 0
                        else EEPROM_read testNumberAddr ?s0)"
      "watchDogFlag s1 = watchDogFlag ?s0" "eeprom s1 = eeprom ?s0"
      "trace s1 = trace ?s0 @
          [PinMode wakeUpPin INPUT, PinMode blueLED OUTPUT, PinMode donePin OUTPUT,
           PinMode DeepSleepPin OUTPUT,
           Publish ''Status''
             (if testNumber s1 \<noteq> 0 then ''Continuing after reset'' else ''Beginning Test Run''),
           RtcSetup, AttachInterrupt wakeUpPin]"
      "rtc_in s1 = rtc_in ?s0"
      "clock_runs (millis_in s1)"
    by blast
  have t1: "testNumber s1 = i"
    using s1(2) assms by (auto simp: unset_rtc_boot_def power_on_def EEPROM_read_def)
  have e1: "eeprom s1 = blank_eeprom(testNumberAddr := i)"
    using s1(4) by (simp add: unset_rtc_boot_def power_on_def)
  have g: "EEPROM_get testStartTimeAddr s1 = 0"
    by (simp add: EEPROM_get_def e1 get_bytes_def blank_eeprom_def)
  have w: "\<not> watchDogFlag s1" using s1(3) by (simp add: unset_rtc_boot_def power_on_def)
  have r: "shd (rtc_in s1) = 0" using s1(6) by (simp add: unset_rtc_boot_def power_on_def)
  have tr: "filter re_arms (trace s1) = []"
    unfolding s1(5) by (simp add: unset_rtc_boot_def power_on_def)
  from assms show ?thesis
  proof
    assume i: "i = 4"
    with t1 have "testNumber s1 = 4" by simp
    from loop_arms(1) [OF g w s1(7) this] obtain s2 where
      "loop s1 = Some (Suspended, s2)"
      "trace s2 = trace s1 @
             [RtcLoop, Publish ''Test'' ''System Deep Mode Sleep with RTC Wake'',
              RtcSetAlarm testDurationSeconds True,
              EepromPut testStartTimeAddr (shd (rtc_in s1)), SleepDeep]"
      "eeprom s2 = put_bytes testStartTimeAddr (shd (rtc_in s1)) (eeprom s1)"
      by blast
    with s1(1) i r e1 tr show ?thesis by (simp add: put_zero_blank)
  next
    assume i: "i = 5"
    with t1 have "testNumber s1 = 5" by simp
    from loop_arms(2) [OF g w s1(7) this] obtain s2 where
      "loop s1 = Some (Suspended, s2)"
      "trace s2 = trace s1 @
             [RtcLoop, Publish ''Test'' ''Power Off with EN pin using RTC'', Delay 5000,
              RtcSetAlarm testDurationSeconds False,
              EepromPut testStartTimeAddr (shd (rtc_in s1)),
              DigitalWrite DeepSleepPin HIGH]"
      "eeprom s2 = put_bytes testStartTimeAddr (shd (rtc_in s1)) (eeprom s1)"
      by blast
    with s1(1) i r e1 tr show ?thesis by (simp add: put_zero_blank)
  qed
qed

subsection \<open>The bounded wait for the alarm\<close>

lemma waitFor_loop_runs:
  "12000 \<le> millis_in s !! k - start \<Longrightarrow>
   \<exists>s' n i. waitConditionWhile alarmSounded
       (\<lambda>s. let (m, s) = millis s in (m - start < 12000, s)) s = Some s' \<and>
     pins_in s' = sdrop n (pins_in s) \<and>
     millis_in s' = sdrop i (millis_in s) \<and>
     same_program s s'"
proof (induction k arbitrary: s)
  case 0
  then have "\<not> shd (millis_in s) - start < 12000" by (simp add: not_less)
  then have "waitConditionWhile alarmSounded
      (\<lambda>s. let (m, s) = millis s in (m - start < 12000, s)) s =
      Some (s\<lparr>millis_in := stl (millis_in s)\<rparr>)"
    by (subst waitConditionWhile.simps) (simp add: millis_def)
  then show ?case
    by (intro exI [of _ "s\<lparr>millis_in := stl (millis_in s)\<rparr>"] exI [of _ 0] exI [of _ 1])
       (simp add: same_program_def)
next
  case (Suc k)
  show ?case
  proof (cases "shd (millis_in s) - start < 12000")
    case False
    then have "waitConditionWhile alarmSounded
        (\<lambda>s. let (m, s) = millis s in (m - start < 12000, s)) s =
        Some (s\<lparr>millis_in := stl (millis_in s)\<rparr>)"
      by (subst waitConditionWhile.simps) (simp add: millis_def)
    then show ?thesis
      by (intro exI [of _ "s\<lparr>millis_in := stl (millis_in s)\<rparr>"] exI [of _ 0] exI [of _ 1])
         (simp add: same_program_def)
  next
    case True
    let ?s = "s\<lparr>millis_in := stl (millis_in s), pins_in := stl (pins_in s)\<rparr>"
    show ?thesis
    proof (cases "shd (pins_in s) wakeUpPin")
      case high: True
      with True have "waitConditionWhile alarmSounded
          (\<lambda>s. let (m, s) = millis s in (m - start < 12000, s)) s = Some ?s"
        by (subst waitConditionWhile.simps) (simp add: millis_def alarmSounded_def digitalRead_def)
      then show ?thesis
        by (intro exI [of _ ?s] exI [of _ 1] exI [of _ 1]) (simp add: same_program_def)
    next
      case low: False
      from Suc.prems have "12000 \<le> millis_in ?s !! k - start" by simp
      from Suc.IH [OF this] obtain s' n i where
        r: "waitConditionWhile alarmSounded
              (\<lambda>s. let (m, s) = millis s in (m - start < 12000, s)) ?s = Some s'"
          "pins_in s' = sdrop n (pins_in ?s)" "millis_in s' = sdrop i (millis_in ?s)"
          "same_program ?s s'"
        by blast
      have "waitConditionWhile alarmSounded
          (\<lambda>s. let (m, s) = millis s in (m - start < 12000, s)) s =
          waitConditionWhile alarmSounded
          (\<lambda>s. let (m, s) = millis s in (m - start < 12000, s)) ?s"
        using True low
        by (subst waitConditionWhile.simps) (simp add: millis_def alarmSounded_def digitalRead_def)
      with r show ?thesis
        by (intro exI [of _ s'] exI [of _ "Suc n"] exI [of _ "Suc i"])
           (simp add: same_program_def)
    qed
  qed
qed

lemma waitFor_alarm_runs:
  assumes "clock_runs (millis_in s)"
  shows "\<exists>b s' n. waitFor alarmSounded 12000 s = Some (b, s') \<and>
     pins_in s' = sdrop (Suc n) (pins_in s) \<and>
     clock_runs (millis_in s') \<and>
     same_program s s'"
proof -
  let ?s = "s\<lparr>millis_in := stl (millis_in s)\<rparr>"
  from assms obtain k where "12000 \<le> millis_in s !! (1 + k) - shd (millis_in s)"
    unfolding clock_runs_def by blast
  then have "12000 \<le> millis_in ?s !! k - shd (millis_in s)" by simp
  from waitFor_loop_runs [OF this] obtain s' n i where
    r: "waitConditionWhile alarmSounded
          (\<lambda>s'. let (m, s') = millis s' in (m - shd (millis_in s) < 12000, s')) ?s = Some s'"
      "pins_in s' = sdrop n (pins_in ?s)" "millis_in s' = sdrop i (millis_in ?s)"
      "same_program ?s s'"
    by blast
  have c: "clock_runs (millis_in s')"
    unfolding r(3) using assms by (simp add: clock_runs_sdrop clock_runs_stl)
  show ?thesis
    using r c
    by (intro exI [of _ "shd (pins_in s') wakeUpPin"] exI [of _ "s'\<lparr>pins_in := stl (pins_in s')\<rparr>"]
          exI [of _ n])
       (simp add: waitFor_def waitCondition_def millis_def alarmSounded_def digitalRead_def
          same_program_def)
qed

lemma snth_sconst: "sconst x !! n = x"
  by (induction n) simp_all

subsection \<open>Successive calls of the rate limiter\<close>

lemma unat_of_nat_diff:
  assumes "a \<le> b"
  shows "unat (of_nat b - of_nat a :: 32 word) \<le> b - a"
proof -
  have "(of_nat b - of_nat a :: 32 word) = of_nat (b - a)" using assms by simp
  then have "unat (of_nat b - of_nat a :: 32 word) = (b - a) mod 2 ^ 32"
    by (simp add: unat_of_nat)
  then show ?thesis by simp
qed

lemma funpow_add_word: "((\<lambda>m. m + d) ^^ n) (x :: 32 word) = x + of_nat n * d"
  by (induction n) (simp_all add: algebra_simps)

lemma stl_sdrop: "stl (sdrop k s) = sdrop (Suc k) s"
  by (induction k arbitrary: s) simp_all

lemma attempts_invariant:
  assumes "millis_in s = sdrop k ms"
      and "\<forall>i < k + 2 * n. ms !! i = of_nat (T i)"
      and "\<forall>i j. i \<le> j \<longrightarrow> j < k + 2 * n \<longrightarrow> T i \<le> T j"
  shows "(\<forall>p \<in> set (attempts n k s). k \<le> fst p \<and> fst p < k + 2 * n \<and> snd p = ms !! fst p) \<and>
         sorted_wrt (\<lambda>a b. T (fst a) + 1000 \<le> T (fst b)) (attempts n k s) \<and>
         (\<forall>j \<le> k. lastPublish s = of_nat (T j) \<longrightarrow>
            (\<forall>p \<in> set (attempts n k s). T j + 1000 \<le> T (fst p)))"
  using assms
proof (induction n arbitrary: s k)
  case 0
  then show ?case by simp
next
  case (Suc n)
  have rd: "ms !! i = of_nat (T i)" if "i < k + 2 * n + 2" for i
    using Suc.prems(2) that by simp
  have mono: "T i \<le> T j" if "i \<le> j" "j < k + 2 * n + 2" for i j
    using Suc.prems(3) that by simp
  have m1: "shd (millis_in s) = of_nat (T k)"
    using Suc.prems(1) rd [of k] by simp
  have m2: "shd (stl (millis_in s)) = ms !! (k + 1)"
  proof -
    have "shd (stl (millis_in s)) = sdrop k ms !! 1" using Suc.prems(1) by simp
    then show ?thesis by (simp only: sdrop_snth)
  qed
  show ?case
  proof (cases "1000 \<le> shd (millis_in s) - lastPublish s")
    case True
    define s1 where "s1 = s\<lparr>millis_in := stl (stl (millis_in s)), lastPublish := ms !! (k + 1)\<rparr>"
    define xs where "xs = attempts n (k + 2) s1"
    have step: "meterParticlePublish s = (True, s1)"
      using True m2 by (simp add: meterParticlePublish_def millis_def s1_def)
    have lp1: "lastPublish s1 = of_nat (T (k + 1))"
      using rd [of "k + 1"] by (simp add: s1_def)
    have eq: "attempts (Suc n) k s = (k + 1, ms !! (k + 1)) # xs"
      using lp1 rd [of "k + 1"] by (simp add: step xs_def)
    have p1: "millis_in s1 = sdrop (k + 2) ms"
    proof -
      have "millis_in s1 = stl (stl (sdrop k ms))" using Suc.prems(1) by (simp add: s1_def)
      also have "\<dots> = sdrop (Suc (Suc k)) ms" by (simp only: stl_sdrop)
      finally show ?thesis by simp
    qed
    have p2: "\<forall>i < k + 2 + 2 * n. ms !! i = of_nat (T i)" using rd by simp
    have p3: "\<forall>i j. i \<le> j \<longrightarrow> j < k + 2 + 2 * n \<longrightarrow> T i \<le> T j" using mono by simp
    from Suc.IH [OF p1 p2 p3]
    have ih1: "\<forall>p \<in> set xs. k + 2 \<le> fst p \<and> fst p < k + 2 + 2 * n \<and> snd p = ms !! fst p"
      and ih2: "sorted_wrt (\<lambda>a b. T (fst a) + 1000 \<le> T (fst b)) xs"
      and ih3: "\<forall>j \<le> k + 2. lastPublish s1 = of_nat (T j) \<longrightarrow>
                  (\<forall>p \<in> set xs. T j + 1000 \<le> T (fst p))"
      unfolding xs_def by blast+
    have after: "T (k + 1) + 1000 \<le> T (fst p)" if "p \<in> set xs" for p
    proof -
      have "k + 1 \<le> k + 2" by simp
      with ih3 lp1 have "\<forall>p \<in> set xs. T (k + 1) + 1000 \<le> T (fst p)" by blast
      with that show ?thesis by blast
    qed
    have prev: "T j + 1000 \<le> T (k + 1)" if "j \<le> k" "lastPublish s = of_nat (T j)" for j
    proof -
      have "T j \<le> T k" using that(1) by (intro mono) simp_all
      then have "unat (of_nat (T k) - of_nat (T j) :: 32 word) \<le> T k - T j"
        by (rule unat_of_nat_diff)
      moreover have "1000 \<le> unat (of_nat (T k) - of_nat (T j) :: 32 word)"
        using True m1 that(2) by (simp add: word_le_nat_alt)
      moreover have "T k \<le> T (k + 1)" by (intro mono) simp_all
      ultimately show ?thesis by linarith
    qed
    have c1: "\<forall>p \<in> set (attempts (Suc n) k s).
        k \<le> fst p \<and> fst p < k + 2 * Suc n \<and> snd p = ms !! fst p"
    proof
      fix p assume "p \<in> set (attempts (Suc n) k s)"
      then consider "p = (k + 1, ms !! (k + 1))" | "p \<in> set xs" unfolding eq by auto
      then show "k \<le> fst p \<and> fst p < k + 2 * Suc n \<and> snd p = ms !! fst p"
      proof cases
        case 1
        then show ?thesis by simp
      next
        case 2
        with ih1 have "k + 2 \<le> fst p \<and> fst p < k + 2 + 2 * n \<and> snd p = ms !! fst p" by blast
        then show ?thesis by simp
      qed
    qed
    have c2: "sorted_wrt (\<lambda>a b. T (fst a) + 1000 \<le> T (fst b)) (attempts (Suc n) k s)"
      unfolding eq using ih2 after by simp
    have c3: "\<forall>j \<le> k. lastPublish s = of_nat (T j) \<longrightarrow>
        (\<forall>p \<in> set (attempts (Suc n) k s). T j + 1000 \<le> T (fst p))"
    proof (intro allI impI ballI)
      fix j p assume j: "j \<le> k" "lastPublish s = of_nat (T j)"
        and "p \<in> set (attempts (Suc n) k s)"
      then consider "p = (k + 1, ms !! (k + 1))" | "p \<in> set xs" unfolding eq by auto
      then show "T j + 1000 \<le> T (fst p)"
      proof cases
        case 1
        with prev [OF j] show ?thesis by simp
      next
        case 2
        from after [OF 2] prev [OF j] show ?thesis by linarith
      qed
    qed
    from c1 c2 c3 show ?thesis by (intro conjI)
  next
    case False
    define s1 where "s1 = s\<lparr>millis_in := stl (millis_in s)\<rparr>"
    define xs where "xs = attempts n (k + 1) s1"
    have step: "meterParticlePublish s = (False, s1)"
      using False by (simp add: meterParticlePublish_def millis_def s1_def)
    have eq: "attempts (Suc n) k s = xs"
      by (simp add: step xs_def)
    have lp1: "lastPublish s1 = lastPublish s" by (simp add: s1_def)
    have p1: "millis_in s1 = sdrop (k + 1) ms"
    proof -
      have "millis_in s1 = stl (sdrop k ms)" using Suc.prems(1) by (simp add: s1_def)
      also have "\<dots> = sdrop (Suc k) ms" by (simp only: stl_sdrop)
      finally show ?thesis by simp
    qed
    have p2: "\<forall>i < k + 1 + 2 * n. ms !! i = of_nat (T i)" using rd by simp
    have p3: "\<forall>i j. i \<le> j \<longrightarrow> j < k + 1 + 2 * n \<longrightarrow> T i \<le> T j" using mono by simp
    from Suc.IH [OF p1 p2 p3]
    have ih1: "\<forall>p \<in> set xs. k + 1 \<le> fst p \<and> fst p < k + 1 + 2 * n \<and> snd p = ms !! fst p"
      and ih2: "sorted_wrt (\<lambda>a b. T (fst a) + 1000 \<le> T (fst b)) xs"
      and ih3: "\<forall>j \<le> k + 1. lastPublish s1 = of_nat (T j) \<longrightarrow>
                  (\<forall>p \<in> set xs. T j + 1000 \<le> T (fst p))"
      unfolding xs_def by blast+
    have c1: "\<forall>p \<in> set (attempts (Suc n) k s).
        k \<le> fst p \<and> fst p < k + 2 * Suc n \<and> snd p = ms !! fst p"
    proof
      fix p assume "p \<in> set (attempts (Suc n) k s)"
      with ih1 have "k + 1 \<le> fst p \<and> fst p < k + 1 + 2 * n \<and> snd p = ms !! fst p"
        unfolding eq by blast
      then show "k \<le> fst p \<and> fst p < k + 2 * Suc n \<and> snd p = ms !! fst p" by simp
    qed
    have c2: "sorted_wrt (\<lambda>a b. T (fst a) + 1000 \<le> T (fst b)) (attempts (Suc n) k s)"
      unfolding eq by (rule ih2)
    have c3: "\<forall>j \<le> k. lastPublish s = of_nat (T j) \<longrightarrow>
        (\<forall>p \<in> set (attempts (Suc n) k s). T j + 1000 \<le> T (fst p))"
    proof (intro allI impI ballI)
      fix j p assume j: "j \<le> k" "lastPublish s = of_nat (T j)"
        and p: "p \<in> set (attempts (Suc n) k s)"
      from j have "j \<le> k + 1" "lastPublish s1 = of_nat (T j)" by (simp_all add: lp1)
      with ih3 have "\<forall>p \<in> set xs. T j + 1000 \<le> T (fst p)" by blast
      with p show "T j + 1000 \<le> T (fst p)" unfolding eq by blast
    qed
    from c1 c2 c3 show ?thesis by (intro conjI)
  qed
qed

lemma apart_span:
  "sorted_wrt (\<lambda>a b. T (fst a) + 1000 \<le> T (fst b)) xs \<Longrightarrow> xs \<noteq> [] \<Longrightarrow>
   \<forall>y \<in> set xs. b \<le> T (fst y) \<Longrightarrow>
   b + 1000 * (length xs - 1) \<le> T (fst (last xs))"
proof (induction xs arbitrary: b)
  case Nil
  then show ?case by simp
next
  case (Cons x xs)
  show ?case
  proof (cases "xs = []")
    case True
    with Cons.prems show ?thesis by simp
  next
    case False
    from Cons.prems have "sorted_wrt (\<lambda>a b. T (fst a) + 1000 \<le> T (fst b)) xs"
      "\<forall>y \<in> set xs. T (fst x) + 1000 \<le> T (fst y)"
      by simp_all
    from Cons.IH [OF this(1) False this(2)]
    have "T (fst x) + 1000 + 1000 * (length xs - 1) \<le> T (fst (last xs))" .
    moreover have "b \<le> T (fst x)" using Cons.prems by simp
    moreover have "0 < length xs" using False by simp
    ultimately show ?thesis using False by (simp add: algebra_simps)
  qed
qed

section \<open>The claims\<close>

text \<open>
  C1, as the code has it. When the millisecond counter keeps running, the end
  operation \<^verbatim>\<open>elapsedTimeCorrect(false)\<close> returns, and it returns pass exactly when
  the elapsed RTC time (the RTC reading minus the stored start time, as a signed
  32-bit value) lies in the closed interval from the target duration to the target
  duration plus the tolerance: the elapsed time may overshoot the target by at most
  the tolerance and must not undershoot it. The tolerance is 2 seconds, and
  2 seconds plus \<^verbatim>\<open>millis()/1000\<close> when the current test is test 4 (deep sleep).
\<close>

theorem elapsedTimeCorrect_end:
  assumes "clock_runs (millis_in s)"
  shows "\<exists>s'. elapsedTimeCorrect False s =
     Some (sint testDurationSeconds \<le> sint (shd (rtc_in s) - EEPROM_get testStartTimeAddr s) \<and>
           sint (shd (rtc_in s) - EEPROM_get testStartTimeAddr s) \<le>
             sint testDurationSeconds +
               (if testNumber s = 4 then 2 + uint (shd (millis_in s)) div 1000 else 2), s')"
proof -
  let ?e = "shd (rtc_in s) - EEPROM_get testStartTimeAddr s"
  let ?a = "if testNumber s = 4 then 2 + shd (millis_in s) div 1000 else (2 :: 32 word)"
  have ua: "uint ?a = (if testNumber s = 4 then 2 + uint (shd (millis_in s)) div 1000 else 2)"
    by (simp add: adj_val)
  have "uint (shd (millis_in s)) < 4294967296" using uint_lt2p [of "shd (millis_in s)"] by simp
  then have "uint ?a \<le> 4294969" unfolding ua by auto
  from elapsedInWindow_iff [OF this, of ?e]
  have win: "elapsedInWindow ?a ?e \<longleftrightarrow>
      sint testDurationSeconds \<le> sint ?e \<and> sint ?e \<le> sint testDurationSeconds + uint ?a"
    by (simp add: testDurationSeconds_def)
  from elapsedTimeCorrect_finish [OF assms] obtain s' where
    "elapsedTimeCorrect False s = Some (elapsedInWindow (adjustment_of s) (elapsed_of s), s')"
    by blast
  then have "elapsedTimeCorrect False s = Some (elapsedInWindow ?a ?e, s')"
    by (simp add: adjustment_of_def elapsed_of_def)
  with win ua show ?thesis by auto
qed

text \<open>The theorem at test 1 with 19 seconds elapsed: the verifier returns fail.\<close>

theorem elapsedTimeCorrect_end_witness:
  "clock_runs (millis_in short_sleep) \<and>
   (\<exists>s'. elapsedTimeCorrect False short_sleep = Some (False, s'))"
proof -
  have c: "clock_runs (millis_in short_sleep)"
    by (simp add: short_sleep_def power_on_def steady_clock_def clock_runs_siterate)
  have "EEPROM_get testStartTimeAddr short_sleep = 100"
    by (simp add: short_sleep_def power_on_def EEPROM_get_def get_bytes_def put_bytes_def blank_eeprom_def)
  with elapsedTimeCorrect_end [OF c] c show ?thesis
    by (simp add: short_sleep_def power_on_def testDurationSeconds_def)
qed

text \<open>
  C1 as stated fails: with a target of 20 seconds and 19 seconds elapsed the interval
  of the specification, from 18 to 20, holds the elapsed time, and the code returns
  fail.
\<close>

theorem elapsedTimeCorrect_end_counterexample:
  "map_option fst (elapsedTimeCorrect False short_sleep) = Some False \<and>
   sint (shd (rtc_in short_sleep) - EEPROM_get testStartTimeAddr short_sleep) = 19 \<and>
   spec_end_pass (sint testDurationSeconds) 2 19"
proof -
  have g: "EEPROM_get testStartTimeAddr short_sleep = 100"
    by (simp add: short_sleep_def power_on_def EEPROM_get_def get_put_bytes)
  have c: "clock_runs (millis_in short_sleep)"
    by (simp add: short_sleep_def power_on_def steady_clock_runs)
  have e: "elapsed_of short_sleep = 19" "adjustment_of short_sleep = 2"
    using g by (simp_all add: elapsed_of_def adjustment_of_def short_sleep_def power_on_def)
  have "\<not> elapsedInWindow 2 19"
    by (simp add: elapsedInWindow_def testDurationSeconds_def)
  with elapsedTimeCorrect_finish [OF c] e
  have "map_option fst (elapsedTimeCorrect False short_sleep) = Some False" by auto
  moreover have "sint (shd (rtc_in short_sleep) - EEPROM_get testStartTimeAddr short_sleep) = 19"
    using g by (simp add: short_sleep_def power_on_def)
  ultimately show ?thesis
    by (simp add: spec_end_pass_def testDurationSeconds_def)
qed

text \<open>
  C2. The device boots with an EEPROM whose test index is 4 (deep sleep) or 5 (power
  off) and whose start time is not 0, and the millisecond counter keeps running. Then
  \<^verbatim>\<open>setup()\<close> and the first tick of \<^verbatim>\<open>loop()\<close> return, and all the tick does is
  the end of the verification: it clears the start time, publishes the result and
  writes the next index and the count. The whole trace since power on holds no RTC
  alarm, no deep sleep, no enable pin driven high and no start time other than 0, and
  the stored start time is 0 afterwards.
\<close>

theorem resume_never_rearms:
  assumes "e testNumberAddr = 4 \<or> e testNumberAddr = 5"
      and "get_bytes testStartTimeAddr e \<noteq> 0"
      and "clock_runs ms"
  shows "\<exists>s1 s2 verdict.
           setup_sketch (power_on e ms ts ps fs) = Some s1 \<and>
           loop s1 = Some (Returns (), s2) \<and>
           trace s2 = trace s1 @
             [RtcLoop, EepromPut testStartTimeAddr 0, Publish ''Result'' verdict,
              EepromWrite testNumberAddr (e testNumberAddr + 1),
              EepromWrite numberOfTestsPassedAddr (ucast (numberOfTestsPassed s2))] \<and>
           filter re_arms (trace s2) = [] \<and>
           EEPROM_get testStartTimeAddr s2 = 0"
proof -
  let ?s0 = "power_on e ms ts ps fs"
  have c0: "clock_runs (millis_in ?s0)" using assms(3) by (simp add: power_on_def)
  from setup_sketch_frame [OF c0] obtain s1 where
    s1: "setup_sketch ?s0 = Some s1"
      "testNumber s1 = (if 5 < uint (EEPROM_read testNumberAddr ?s0) then 0
                        else EEPROM_read testNumberAddr ?s0)"
      "watchDogFlag s1 = watchDogFlag ?s0" "eeprom s1 = eeprom ?s0"
      "trace s1 = trace ?s0 @
          [PinMode wakeUpPin INPUT, PinMode blueLED OUTPUT, PinMode donePin OUTPUT,
           PinMode DeepSleepPin OUTPUT,
           Publish ''Status''
             (if testNumber s1 \<noteq> 0 then ''Continuing after reset'' else ''Beginning Test Run''),
           RtcSetup, AttachInterrupt wakeUpPin]"
      "clock_runs (millis_in s1)"
    by blast
  have t1: "testNumber s1 = e testNumberAddr"
    using s1(2) assms(1) by (auto simp: power_on_def EEPROM_read_def)
  then have t: "testNumber s1 = 4 \<or> testNumber s1 = 5" using assms(1) by simp
  have g: "EEPROM_get testStartTimeAddr s1 \<noteq> 0"
    using s1(4) assms(2) by (simp add: EEPROM_get_def power_on_def)
  have w: "\<not> watchDogFlag s1" using s1(3) by (simp add: power_on_def)
  from loop_resumes [OF t g w s1(6)] obtain s2 verdict where
    s2: "loop s1 = Some (Returns (), s2)"
      "trace s2 = trace s1 @
         [RtcLoop, EepromPut testStartTimeAddr 0, Publish ''Result'' verdict,
          EepromWrite testNumberAddr (testNumber s1 + 1),
          EepromWrite numberOfTestsPassedAddr (ucast (numberOfTestsPassed s2))]"
      "EEPROM_get testStartTimeAddr s2 = 0"
    by blast
  have "filter re_arms (trace s2) = []"
    unfolding s2(2) s1(5) by (simp add: power_on_def)
  with s1(1) s2 t1 show ?thesis by auto
qed

text \<open>
  The theorem for a device that armed test 4 at RTC time 1700000000 and wakes 20
  seconds later.
\<close>

theorem resume_never_rearms_witness:
  "(armed_eeprom 4 testNumberAddr = 4 \<or> armed_eeprom 4 testNumberAddr = 5) \<and>
   get_bytes testStartTimeAddr (armed_eeprom 4) \<noteq> 0 \<and>
   clock_runs steady_clock \<and>
   (\<exists>s1 s2 verdict.
      setup_sketch (power_on (armed_eeprom 4) steady_clock (sconst 1700000020)
        (sconst (\<lambda>p. False)) (sconst False)) = Some s1 \<and>
      loop s1 = Some (Returns (), s2) \<and>
      trace s2 = trace s1 @
        [RtcLoop, EepromPut testStartTimeAddr 0, Publish ''Result'' verdict,
         EepromWrite testNumberAddr 5,
         EepromWrite numberOfTestsPassedAddr (ucast (numberOfTestsPassed s2))] \<and>
      filter re_arms (trace s2) = [] \<and>
      EEPROM_get testStartTimeAddr s2 = 0)"
proof -
  have h1: "armed_eeprom 4 testNumberAddr = 4 \<or> armed_eeprom 4 testNumberAddr = 5"
    by (simp add: armed_eeprom_def put_bytes_def)
  have h2: "get_bytes testStartTimeAddr (armed_eeprom 4) \<noteq> 0"
    by (simp add: armed_eeprom_def get_put_bytes)
  have e: "armed_eeprom 4 testNumberAddr + 1 = 5"
    by (simp add: armed_eeprom_def put_bytes_def)
  from resume_never_rearms [OF h1 h2 steady_clock_runs,
      of "sconst 1700000020" "sconst (\<lambda>p. False)" "sconst False"]
    h1 h2 steady_clock_runs
  show ?thesis unfolding e by blast
qed

text \<open>
  C3, as the code has it. When the test index is 6 the next tick publishes the tally
  ``Sleep Tests Complete - Passed \<open>p\<close> out of \<open>n\<close>'' with \<open>p\<close> the pass count as
  it stands and \<open>n\<close> the number of tests, waits 30 seconds and sets the test index in
  memory to 0. The test index in EEPROM is left as it is.
\<close>

theorem loop_reporting:
  assumes "testNumber s = 6" and "clock_runs (millis_in s)"
  shows "\<exists>s'. loop s = Some (Returns (), s') \<and>
           trace s' = trace s @ [RtcLoop] @
             (if watchDogFlag s then [Publish ''Watchdog'' ''Interrupt''] else []) @
             [Publish ''Final Result''
                (''Sleep Tests Complete - Passed '' @ fmt_i (numberOfTestsPassed s) @
                 '' out of '' @ fmt_i numberOfTests),
              Delay 30000] \<and>
           testNumber s' = 0 \<and>
           EEPROM_read testNumberAddr s' = EEPROM_read testNumberAddr s"
  using loop_6 [OF assms] by (auto simp: fmt_i_numberOfTests EEPROM_read_def)

text \<open>
  The theorem for a device in the reporting state with three passes.
\<close>

theorem loop_reporting_witness:
  "testNumber reporting_device = 6 \<and> clock_runs (millis_in reporting_device) \<and>
   (\<exists>s'. loop reporting_device = Some (Returns (), s') \<and>
      trace s' = [RtcLoop, Publish ''Final Result'' ''Sleep Tests Complete - Passed 3 out of 5'',
                  Delay 30000] \<and>
      testNumber s' = 0 \<and>
      EEPROM_read testNumberAddr s' = 6)"
proof -
  have h: "testNumber reporting_device = 6" "clock_runs (millis_in reporting_device)"
    by (simp_all add: reporting_device_def power_on_def steady_clock_runs)
  from loop_reporting [OF h] h show ?thesis
    by (simp add: reporting_device_def power_on_def fmt_i_def numberOfTests_def dec.simps
        EEPROM_read_def)
qed

text \<open>
  C3 as stated fails: after the tick of the reporting state the pass count is still 3,
  and the EEPROM still holds the index 6 and the count 3.
\<close>

theorem loop_reporting_counterexample:
  "map_option (numberOfTestsPassed \<circ> snd) (loop reporting_device) = Some 3 \<and>
   map_option (EEPROM_read testNumberAddr \<circ> snd) (loop reporting_device) = Some 6 \<and>
   map_option (EEPROM_read numberOfTestsPassedAddr \<circ> snd) (loop reporting_device) = Some 3"
proof -
  have h: "testNumber reporting_device = 6" "clock_runs (millis_in reporting_device)"
    by (simp_all add: reporting_device_def power_on_def steady_clock_runs)
  from loop_6 [OF h] show ?thesis
    by (auto simp: reporting_device_def power_on_def EEPROM_read_def)
qed

text \<open>
  C4. The store of the start time does come before the suspending call, but what is
  stored is the RTC reading, and nothing guards a reading of 0. With an RTC that was
  never set, a boot with test 4 (or test 5) next and no start time stored runs the
  arm branch: it sets the alarm, stores the start time 0, which is the sentinel, and
  suspends (or cuts the power). The suspending call is reached with the sentinel
  stored, and the EEPROM is what it was at boot: the next boot arms again instead of
  resuming.
\<close>

theorem unset_rtc_arms_again:
  "map_option fst (Option.bind (setup_sketch (unset_rtc_boot 4)) loop) = Some Suspended \<and>
   map_option (filter re_arms \<circ> trace \<circ> snd) (Option.bind (setup_sketch (unset_rtc_boot 4)) loop) =
     Some [RtcSetAlarm 20 True, SleepDeep] \<and>
   map_option (EEPROM_get testStartTimeAddr \<circ> snd)
     (Option.bind (setup_sketch (unset_rtc_boot 4)) loop) = Some 0 \<and>
   map_option (eeprom \<circ> snd) (Option.bind (setup_sketch (unset_rtc_boot 4)) loop) =
     Some (eeprom (unset_rtc_boot 4)) \<and>
   map_option fst (Option.bind (setup_sketch (unset_rtc_boot 5)) loop) = Some Suspended \<and>
   map_option (filter re_arms \<circ> trace \<circ> snd) (Option.bind (setup_sketch (unset_rtc_boot 5)) loop) =
     Some [RtcSetAlarm 20 False, DigitalWrite DeepSleepPin HIGH] \<and>
   map_option (EEPROM_get testStartTimeAddr \<circ> snd)
     (Option.bind (setup_sketch (unset_rtc_boot 5)) loop) = Some 0 \<and>
   map_option (eeprom \<circ> snd) (Option.bind (setup_sketch (unset_rtc_boot 5)) loop) =
     Some (eeprom (unset_rtc_boot 5))"
proof -
  have e: "eeprom (unset_rtc_boot i) = blank_eeprom(testNumberAddr := i)" for i
    by (simp add: unset_rtc_boot_def power_on_def)
  have z: "get_bytes (Suc 0) (blank_eeprom(testNumberAddr := i)) = 0" for i
    by (simp add: get_bytes_def blank_eeprom_def)
  from unset_rtc_boot_run [of 4] obtain s1 s2 where
    a: "setup_sketch (unset_rtc_boot 4) = Some s1" "loop s1 = Some (Suspended, s2)"
      "filter re_arms (trace s2) = [RtcSetAlarm testDurationSeconds True, SleepDeep]"
      "eeprom s2 = blank_eeprom(testNumberAddr := 4)"
    by auto
  from unset_rtc_boot_run [of 5] obtain t1 t2 where
    b: "setup_sketch (unset_rtc_boot 5) = Some t1" "loop t1 = Some (Suspended, t2)"
      "filter re_arms (trace t2) =
         [RtcSetAlarm testDurationSeconds False, DigitalWrite DeepSleepPin HIGH]"
      "eeprom t2 = blank_eeprom(testNumberAddr := 5)"
    by auto
  from a b show ?thesis
    by (simp add: e z EEPROM_get_def testDurationSeconds_def)
qed

text \<open>
  C5. The duration-setting entry point \<^verbatim>\<open>setDuration\<close> on any command: when the value
  parsed by \<^verbatim>\<open>strtol\<close> is below 0 or above 3600 the call returns 0 and the whole
  state, in memory and in EEPROM, is as before; when the value is in 0..3600 (the ends
  included) the call returns 1, the duration in memory is the value, EEPROM holds the
  value, and the confirmation has been published.
\<close>

theorem setDuration_bounds:
  assumes "clock_runs (millis_in s)"
  shows "(strtol command < 0 \<or> 3600 < strtol command \<longrightarrow>
            setDuration command s = Some (0, s)) \<and>
         (0 \<le> strtol command \<and> strtol command \<le> 3600 \<longrightarrow>
            (\<exists>s'. setDuration command s = Some (1, s') \<and>
               testDurationSeconds_v103 s' = word_of_int (strtol command) \<and>
               EEPROM_get testDurationSecondsAddr s' = word_of_int (strtol command) \<and>
               trace s' = trace s @
                 [EepromPut testDurationSecondsAddr (word_of_int (strtol command)),
                  Publish ''Test Duration''
                    (''Test duration set to '' @ dec (nat (strtol command))),
                  Delay 1000]))"
  using setDuration_rejects [of command s] setDuration_accepts [of command s] assms by blast

text \<open>
  The theorem at the four values of the specification: -1 and 3601 are rejected, 0
  and 3600 are accepted.
\<close>

theorem setDuration_bounds_witness:
  "clock_runs (millis_in idle_device) \<and>
   setDuration ''-1'' idle_device = Some (0, idle_device) \<and>
   setDuration ''3601'' idle_device = Some (0, idle_device) \<and>
   (\<exists>s'. setDuration ''0'' idle_device = Some (1, s') \<and>
      testDurationSeconds_v103 s' = 0 \<and> EEPROM_get testDurationSecondsAddr s' = 0 \<and>
      trace s' = [EepromPut testDurationSecondsAddr 0,
                  Publish ''Test Duration'' ''Test duration set to 0'', Delay 1000]) \<and>
   (\<exists>s'. setDuration ''3600'' idle_device = Some (1, s') \<and>
      testDurationSeconds_v103 s' = 3600 \<and> EEPROM_get testDurationSecondsAddr s' = 3600 \<and>
      trace s' = [EepromPut testDurationSecondsAddr 3600,
                  Publish ''Test Duration'' ''Test duration set to 3600'', Delay 1000])"
proof -
  have v: "strtol ''-1'' = - 1" "strtol ''3601'' = 3601" "strtol ''0'' = 0" "strtol ''3600'' = 3600"
    by (simp_all add: strtol_defs)
  have t: "trace idle_device = []" by (simp add: idle_device_def power_on_def)
  show ?thesis
    using setDuration_bounds [OF idle_device_runs, of "''-1''"]
      setDuration_bounds [OF idle_device_runs, of "''3601''"]
      setDuration_bounds [OF idle_device_runs, of "''0''"]
      setDuration_bounds [OF idle_device_runs, of "''3600''"]
      idle_device_runs
    by (simp add: v t dec.simps)
qed

text \<open>
  C6. The RTC-alarm test, run as any test but test 4 (it is test 2) on a millisecond
  counter that keeps running, returns; it reads the RTC interrupt flag once, after
  the wait, and the wake pin after it only when the flag is set. It returns pass
  exactly when the flag is set, the wake pin then reads HIGH and the elapsed-time
  check holds; so it fails whenever at most one of the two signals is there.
\<close>

theorem rtcAlarmTest_dual:
  assumes "testNumber s \<noteq> 4" and "clock_runs (millis_in s)"
  shows "\<exists>pass s' n. rtcAlarmTest s = Some (pass, s') \<and>
     rtcint_in s' = stl (rtcint_in s) \<and>
     (shd (rtcint_in s) \<longrightarrow> pins_in s' = sdrop (Suc n) (pins_in s)) \<and>
     pass = (shd (rtcint_in s) \<and> (pins_in s !! n) wakeUpPin \<and>
             elapsedInWindow 2 (rtc_in s !! 1 - shd (rtc_in s)))"
proof -
  let ?s4 = "emit (RtcSetAlarm 10 True)
      (snd (the (elapsedTimeCorrect True
         (Particle_publish ''Test'' ''RTC Alarm'' (snd (the (waitUntil meterParticlePublish s)))))))"
  let ?rest = "\<lambda>s. let (both, s) =
             (let (fired, s) = rtc_getInterrupt s in
              if fired then digitalRead wakeUpPin s else (False, s))
       in if both then elapsedTimeCorrect False s
       else Option.bind (waitUntil meterParticlePublish s)
         (\<lambda>(_, s). Some (False, Particle_publish ''Result'' ''Failed - No Interrupt'' s))"
  have s4: "clock_runs (millis_in ?s4)" "pins_in ?s4 = pins_in s" "rtcint_in ?s4 = rtcint_in s"
    "rtc_in ?s4 = stl (rtc_in s)" "testNumber ?s4 = testNumber s"
    "eeprom ?s4 = put_bytes testStartTimeAddr (shd (rtc_in s)) (eeprom s)"
    using assms(2) by (simp_all add: wait_simps verifier_simps emit_def Particle_publish_def)
  have eq: "rtcAlarmTest s = Option.bind (waitFor alarmSounded 12000 ?s4) (\<lambda>(_, s). ?rest s)"
    using assms(2)
    by (simp add: rtcAlarmTest_def wait_simps verifier_simps emit_def Particle_publish_def)
  from waitFor_alarm_runs [OF s4(1)] obtain b s5 n where
    s5: "waitFor alarmSounded 12000 ?s4 = Some (b, s5)"
      "pins_in s5 = sdrop (Suc n) (pins_in ?s4)" "clock_runs (millis_in s5)"
      "same_program ?s4 s5"
    by blast
  from s5(4) s4 have f5: "rtcint_in s5 = rtcint_in s" "rtc_in s5 = stl (rtc_in s)"
    "testNumber s5 = testNumber s"
    "eeprom s5 = put_bytes testStartTimeAddr (shd (rtc_in s)) (eeprom s)"
    by (simp_all add: same_program_def)
  have run: "rtcAlarmTest s = ?rest s5" unfolding eq s5(1) by simp
  show ?thesis
  proof (cases "shd (rtcint_in s) \<and> (pins_in s !! Suc n) wakeUpPin")
    case True
    let ?s6 = "s5\<lparr>rtcint_in := stl (rtcint_in s5), pins_in := stl (pins_in s5)\<rparr>"
    have c6: "clock_runs (millis_in ?s6)" using s5(3) by simp
    have a6: "adjustment_of ?s6 = 2" using assms(1) f5 by (simp add: adjustment_of_def)
    have e6: "elapsed_of ?s6 = rtc_in s !! 1 - shd (rtc_in s)"
      using f5 by (simp add: elapsed_of_def EEPROM_get_def get_put_bytes)
    from elapsedTimeCorrect_finish [OF c6] obtain s' where
      s': "elapsedTimeCorrect False ?s6 =
             Some (elapsedInWindow (adjustment_of ?s6) (elapsed_of ?s6), s')"
        "pins_in s' = pins_in ?s6" "rtcint_in s' = rtcint_in ?s6"
      by blast
    have "rtcAlarmTest s = elapsedTimeCorrect False ?s6"
      unfolding run using True f5 s5(2) s4(2)
      by (simp add: rtc_getInterrupt_def digitalRead_def)
    with s' True a6 e6 f5 s5(2) s4(2) show ?thesis
      by (intro exI [of _ "elapsedInWindow 2 (rtc_in s !! 1 - shd (rtc_in s))"] exI [of _ s']
            exI [of _ "Suc n"]) simp
  next
    case False
    have fail: "\<exists>pass s' n. rtcAlarmTest s = Some (pass, s') \<and>
        rtcint_in s' = stl (rtcint_in s) \<and>
        (shd (rtcint_in s) \<longrightarrow> pins_in s' = sdrop (Suc n) (pins_in s)) \<and>
        pass = (shd (rtcint_in s) \<and> (pins_in s !! n) wakeUpPin \<and>
                elapsedInWindow 2 (rtc_in s !! 1 - shd (rtc_in s)))"
      if c6: "clock_runs (millis_in s6)"
        and r6: "rtcAlarmTest s = Option.bind (waitUntil meterParticlePublish s6)
           (\<lambda>(_, s). Some (False, Particle_publish ''Result'' ''Failed - No Interrupt'' s))"
        and i6: "rtcint_in s6 = stl (rtcint_in s)"
        and p6: "shd (rtcint_in s) \<longrightarrow> pins_in s6 = sdrop (Suc (Suc n)) (pins_in s)"
      for s6
    proof -
      have "rtcAlarmTest s =
          Some (False, Particle_publish ''Result'' ''Failed - No Interrupt'' (snd (the (waitUntil meterParticlePublish s6))))"
        unfolding r6 using c6 by (simp only: waitUntil_bind)
      moreover have "rtcint_in (snd (the (waitUntil meterParticlePublish s6))) = stl (rtcint_in s)"
        "shd (rtcint_in s) \<longrightarrow> pins_in (snd (the (waitUntil meterParticlePublish s6))) = sdrop (Suc (Suc n)) (pins_in s)"
        using c6 i6 p6 by (simp_all add: waitUntil_frame)
      ultimately show ?thesis
        using False
        by (intro exI [of _ False]
              exI [of _ "Particle_publish ''Result'' ''Failed - No Interrupt'' (snd (the (waitUntil meterParticlePublish s6)))"]
              exI [of _ "Suc n"])
           (auto simp: Particle_publish_def emit_def)
    qed
    show ?thesis
    proof (cases "shd (rtcint_in s)")
      case fired: True
      let ?s6 = "s5\<lparr>rtcint_in := stl (rtcint_in s5), pins_in := stl (pins_in s5)\<rparr>"
      show ?thesis
      proof (rule fail [of ?s6])
        show "clock_runs (millis_in ?s6)" using s5(3) by simp
        show "rtcAlarmTest s = Option.bind (waitUntil meterParticlePublish ?s6)
           (\<lambda>(_, s). Some (False, Particle_publish ''Result'' ''Failed - No Interrupt'' s))"
          unfolding run using False fired f5 s5(2) s4(2)
          by (simp add: rtc_getInterrupt_def digitalRead_def)
        show "rtcint_in ?s6 = stl (rtcint_in s)" using f5 by simp
        show "shd (rtcint_in s) \<longrightarrow> pins_in ?s6 = sdrop (Suc (Suc n)) (pins_in s)"
          using s5(2) s4(2) by simp
      qed
    next
      case silent: False
      let ?s6 = "s5\<lparr>rtcint_in := stl (rtcint_in s5)\<rparr>"
      show ?thesis
      proof (rule fail [of ?s6])
        show "clock_runs (millis_in ?s6)" using s5(3) by simp
        show "rtcAlarmTest s = Option.bind (waitUntil meterParticlePublish ?s6)
           (\<lambda>(_, s). Some (False, Particle_publish ''Result'' ''Failed - No Interrupt'' s))"
          unfolding run using silent f5
          by (simp add: rtc_getInterrupt_def)
        show "rtcint_in ?s6 = stl (rtcint_in s)" using f5 by simp
        show "shd (rtcint_in s) \<longrightarrow> pins_in ?s6 = sdrop (Suc (Suc n)) (pins_in s)"
          using silent by simp
      qed
    qed
  qed
qed

text \<open>
  The theorem with the flag set and 20 seconds elapsed: pass with the wake pin high,
  fail with the wake pin low.
\<close>

theorem rtcAlarmTest_dual_witness:
  "testNumber alarm_fired \<noteq> 4 \<and> clock_runs (millis_in alarm_fired) \<and>
   (\<exists>s'. rtcAlarmTest alarm_fired = Some (True, s')) \<and>
   testNumber wake_pin_low \<noteq> 4 \<and> clock_runs (millis_in wake_pin_low) \<and>
   (\<exists>s'. rtcAlarmTest wake_pin_low = Some (False, s'))"
proof -
  have a: "testNumber alarm_fired \<noteq> 4" "clock_runs (millis_in alarm_fired)"
    by (simp_all add: alarm_fired_def power_on_def steady_clock_runs)
  have b: "testNumber wake_pin_low \<noteq> 4" "clock_runs (millis_in wake_pin_low)"
    by (simp_all add: wake_pin_low_def power_on_def steady_clock_runs)
  have w: "elapsedInWindow 2 (120 - 100)"
    by (simp add: elapsedInWindow_def testDurationSeconds_def)
  have pa: "rtcint_in alarm_fired = sconst True" "pins_in alarm_fired = sconst (\<lambda>p. True)"
    "rtc_in alarm_fired = 100 ## sconst 120"
    by (simp_all add: alarm_fired_def power_on_def)
  have pb: "rtcint_in wake_pin_low = sconst True" "pins_in wake_pin_low = sconst (\<lambda>p. False)"
    by (simp_all add: wake_pin_low_def power_on_def)
  from rtcAlarmTest_dual [OF a] obtain pass s' n where
    "rtcAlarmTest alarm_fired = Some (pass, s')"
    "pass = (shd (rtcint_in alarm_fired) \<and> (pins_in alarm_fired !! n) wakeUpPin \<and>
             elapsedInWindow 2 (rtc_in alarm_fired !! 1 - shd (rtc_in alarm_fired)))"
    by blast
  then have 1: "\<exists>s'. rtcAlarmTest alarm_fired = Some (True, s')"
    using w by (simp add: pa snth_sconst del: snth_siterate)
  from rtcAlarmTest_dual [OF b] obtain pass s' n where
    "rtcAlarmTest wake_pin_low = Some (pass, s')"
    "pass = (shd (rtcint_in wake_pin_low) \<and> (pins_in wake_pin_low !! n) wakeUpPin \<and>
             elapsedInWindow 2 (rtc_in wake_pin_low !! 1 - shd (rtc_in wake_pin_low)))"
    by blast
  then have 2: "\<exists>s'. rtcAlarmTest wake_pin_low = Some (False, s')"
    by (simp add: pb snth_sconst del: snth_siterate)
  from a b 1 2 show ?thesis by blast
qed

text \<open>
  C7. At boot, whatever byte EEPROM holds for the test index, a value above the number
  of tests (5 in Sleep-Modes.ino, 2 in the v1.03 sketch) gives the index 0 in memory,
  and a value in range is kept; a byte is never negative. The pass count of
  Sleep-Modes.ino is loaded the same way: above the number of tests it becomes 0.
\<close>

theorem setup_clamps:
  assumes "clock_runs (millis_in s)"
  shows "(\<exists>s'. setup_sketch s = Some s' \<and>
            testNumber s' =
              (if 5 < uint (EEPROM_read testNumberAddr s) then 0
               else EEPROM_read testNumberAddr s) \<and>
            numberOfTestsPassed s' =
              (if uint numberOfTests < uint (EEPROM_read numberOfTestsPassedAddr s) then 0
               else ucast (EEPROM_read numberOfTestsPassedAddr s))) \<and>
         (\<exists>s'. setup_v103 s = Some s' \<and>
            testNumber s' =
              (if 2 < uint (EEPROM_read testNumberAddr s) then 0
               else EEPROM_read testNumberAddr s))"
  using setup_sketch_frame [OF assms] setup_v103_run [OF assms] by blast

text \<open>
  The theorem for an EEPROM holding 255 as index and 200 as count.
\<close>

theorem setup_clamps_witness:
  "clock_runs (millis_in garbage_device) \<and>
   (\<exists>s'. setup_sketch garbage_device = Some s' \<and> testNumber s' = 0 \<and>
      numberOfTestsPassed s' = 0) \<and>
   (\<exists>s'. setup_v103 garbage_device = Some s' \<and> testNumber s' = 0)"
proof -
  have h: "clock_runs (millis_in garbage_device)"
    by (simp add: garbage_device_def power_on_def steady_clock_runs)
  from setup_clamps [OF h] h show ?thesis
    by (simp add: garbage_device_def power_on_def EEPROM_read_def numberOfTests_def)
qed

text \<open>
  C8. Let the first \<open>2n\<close> readings of \<^verbatim>\<open>millis()\<close> be taken at the times
  \<open>T 0, T 1, \<dots>\<close> (in ms, not going backwards), each reading being its time modulo
  \<open>2^32\<close>. Among \<open>n\<close> successive calls of the rate limiter, every admitted call is
  stamped with one of these readings, any two admitted calls have stamps at least
  1000 ms apart, and the number of admitted calls is at most the time from the first
  reading to the last stamp, in whole seconds, plus one. The limiter has one stamp
  for all call sites.
\<close>

theorem rate_limit:
  assumes "stake (2 * n) (millis_in s) = map (\<lambda>i. of_nat (T i)) [0..<2 * n]"
      and "sorted (map T [0..<2 * n])"
  shows "(\<forall>p \<in> set (attempts n 0 s). fst p < 2 * n \<and> snd p = millis_in s !! fst p) \<and>
         sorted_wrt (\<lambda>a b. T (fst a) + 1000 \<le> T (fst b)) (attempts n 0 s) \<and>
         (attempts n 0 s \<noteq> [] \<longrightarrow>
            length (attempts n 0 s) \<le> (T (fst (last (attempts n 0 s))) - T 0) div 1000 + 1)"
proof -
  define xs where "xs = attempts n 0 s"
  have rd: "millis_in s !! i = of_nat (T i)" if "i < 2 * n" for i
  proof -
    have "stake (2 * n) (millis_in s) ! i = map (\<lambda>i. of_nat (T i)) [0..<2 * n] ! i"
      by (simp only: assms(1))
    with that show ?thesis by (simp add: stake_nth)
  qed
  have mono: "T i \<le> T j" if "i \<le> j" "j < 2 * n" for i j
  proof -
    from assms(2) that have "map T [0..<2 * n] ! i \<le> map T [0..<2 * n] ! j"
      by (intro sorted_nth_mono) simp_all
    with that show ?thesis by simp
  qed
  have p1: "millis_in s = sdrop 0 (millis_in s)" by simp
  have p2: "\<forall>i < 0 + 2 * n. millis_in s !! i = of_nat (T i)" using rd by simp
  have p3: "\<forall>i j. i \<le> j \<longrightarrow> j < 0 + 2 * n \<longrightarrow> T i \<le> T j" using mono by simp
  from attempts_invariant [OF p1 p2 p3]
  have inv1: "\<forall>p \<in> set xs. 0 \<le> fst p \<and> fst p < 0 + 2 * n \<and> snd p = millis_in s !! fst p"
    and inv2: "sorted_wrt (\<lambda>a b. T (fst a) + 1000 \<le> T (fst b)) xs"
    unfolding xs_def by blast+
  have c1: "\<forall>p \<in> set xs. fst p < 2 * n \<and> snd p = millis_in s !! fst p"
    using inv1 by simp
  have c3: "length xs \<le> (T (fst (last xs)) - T 0) div 1000 + 1" if ne: "xs \<noteq> []"
  proof -
    have "\<forall>y \<in> set xs. T 0 \<le> T (fst y)"
    proof
      fix y assume "y \<in> set xs"
      with c1 have "fst y < 2 * n" by blast
      then show "T 0 \<le> T (fst y)" by (intro mono) simp_all
    qed
    from apart_span [OF inv2 ne this]
    have "1000 * (length xs - 1) \<le> T (fst (last xs)) - T 0" by linarith
    then have "length xs - 1 \<le> (T (fst (last xs)) - T 0) div 1000"
      by (simp add: less_eq_div_iff_mult_less_eq mult.commute)
    then show ?thesis by linarith
  qed
  from c1 inv2 c3 show ?thesis unfolding xs_def by blast
qed

text \<open>
  The theorem for three calls 600 ms apart while the counter wraps around: the first
  and the third are admitted.
\<close>

theorem rate_limit_witness:
  "stake (2 * 3) (millis_in wrapping_device) =
     map (\<lambda>i. of_nat (4294966000 + 600 * i)) [0..<2 * 3] \<and>
   sorted (map (\<lambda>i. 4294966000 + 600 * i) [0..<2 * 3 :: nat]) \<and>
   attempts 3 0 wrapping_device = [(1, 4294966600), (4, 1104)] \<and>
   sorted_wrt (\<lambda>a b. (4294966000 + 600 * fst a) + 1000 \<le> 4294966000 + 600 * fst b)
     (attempts 3 0 wrapping_device) \<and>
   length (attempts 3 0 wrapping_device) \<le>
     ((4294966000 + 600 * fst (last (attempts 3 0 wrapping_device))) - 4294966000) div 1000 + 1"
proof -
  have h1: "stake (2 * 3) (millis_in wrapping_device) =
      map (\<lambda>i. of_nat (4294966000 + 600 * i)) [0..<2 * 3]"
    by (rule nth_equalityI)
       (simp_all add: stake_nth wrapping_device_def power_on_def wrapping_clock_def
          funpow_add_word algebra_simps)
  have h2: "sorted (map (\<lambda>i. 4294966000 + 600 * i) [0..<2 * 3 :: nat])"
    by (simp add: sorted_iff_nth_mono)
  have "attempts (Suc (Suc (Suc 0))) 0 wrapping_device = [(1, 4294966600), (4, 1104)]"
    by (simp add: wrapping_device_def power_on_def wrapping_clock_def
        meterParticlePublish_def millis_def)
  then have ev: "attempts 3 0 wrapping_device = [(1, 4294966600), (4, 1104)]"
    by (simp only: numeral_3_eq_3)
  from rate_limit [of 3 wrapping_device "\<lambda>i. 4294966000 + 600 * i", OF h1 h2] h1 h2 ev
  show ?thesis by simp
qed

text \<open>
  C9. A command that does not begin with an integer is parsed by \<^verbatim>\<open>strtol\<close> as 0,
  which is in range: \<^verbatim>\<open>setDuration\<close> returns 1, sets the duration to 0 in memory and
  in EEPROM and publishes the confirmation.
\<close>

theorem setDuration_non_numeric:
  assumes "\<not> starts_with_integer command" and "clock_runs (millis_in s)"
  shows "strtol command = 0 \<and>
         (\<exists>s'. setDuration command s = Some (1, s') \<and>
            testDurationSeconds_v103 s' = 0 \<and>
            EEPROM_get testDurationSecondsAddr s' = 0 \<and>
            trace s' = trace s @
              [EepromPut testDurationSecondsAddr 0,
               Publish ''Test Duration'' ''Test duration set to 0'', Delay 1000])"
proof -
  have z: "strtol command = 0" using assms(1) by (rule strtol_no_integer)
  with setDuration_accepts [of command s] assms(2) show ?thesis
    by (simp add: dec.simps)
qed

text \<open>
  The theorem for the command \<^verbatim>\<open>abc\<close>.
\<close>

theorem setDuration_non_numeric_witness:
  "\<not> starts_with_integer ''abc'' \<and> clock_runs (millis_in idle_device) \<and>
   strtol ''abc'' = 0 \<and>
   (\<exists>s'. setDuration ''abc'' idle_device = Some (1, s') \<and>
      testDurationSeconds_v103 s' = 0 \<and>
      EEPROM_get testDurationSecondsAddr s' = 0 \<and>
      trace s' = [EepromPut testDurationSecondsAddr 0,
                  Publish ''Test Duration'' ''Test duration set to 0'', Delay 1000])"
proof -
  have n: "\<not> starts_with_integer ''abc''"
    by (simp add: starts_with_integer_def isspace_def isdigit_def)
  have t: "trace idle_device = []" by (simp add: idle_device_def power_on_def)
  from setDuration_non_numeric [OF n idle_device_runs] n idle_device_runs show ?thesis
    by (simp add: t)
qed

text \<open>
  C10. In the idle state (test index 0) a tick moves to test 1 exactly when the user
  switch reads LOW; otherwise the index stays 0. In both cases the pass count and the
  EEPROM are as before the tick, so nothing starts a new run but the switch.
\<close>

theorem loop_idle:
  assumes "testNumber s = 0" and "clock_runs (millis_in s)"
  shows "\<exists>s'. loop s = Some (Returns (), s') \<and>
           testNumber s' = (if shd (pins_in s) userSwitch = LOW then 1 else 0) \<and>
           numberOfTestsPassed s' = numberOfTestsPassed s \<and>
           eeprom s' = eeprom s"
  using assms by (cases "watchDogFlag s") (simp_all add: loop_def io_defs wait_simps Let_def)

text \<open>
  The theorem for a device in the idle state whose switch is held down.
\<close>

theorem loop_idle_witness:
  "testNumber idle_device = 0 \<and> clock_runs (millis_in idle_device) \<and>
   (\<exists>s'. loop idle_device = Some (Returns (), s') \<and> testNumber s' = 1 \<and>
      numberOfTestsPassed s' = 0 \<and> eeprom s' = blank_eeprom)"
proof -
  have h: "testNumber idle_device = 0" "clock_runs (millis_in idle_device)"
    by (simp_all add: idle_device_def power_on_def steady_clock_runs)
  from loop_idle [OF h] h show ?thesis
    by (simp add: idle_device_def power_on_def)
qed

end
